theory Spec2Isabelle
  imports Complex_Main "HOL-Library.AList"
begin

section \<open>Python values used by the agent manager\<close>

text \<open>
  A \<^verbatim>\<open>datetime\<close> is the number of microseconds since the epoch and a
  \<^verbatim>\<open>timedelta\<close> a number of microseconds, so that subtraction and comparison
  are exact, as they are in Python. Every operation takes the time of its call as
  \<open>now\<close>, the value its \<^verbatim>\<open>datetime.now()\<close> returns. A float is a real number: the
  program stores confidences and success rates and never compares two computed ones.
\<close>

type_synonym time = int

definition timedelta_days :: "int \<Rightarrow> int" where
  "timedelta_days d = d * 86400000000"

text \<open>A \<^verbatim>\<open>Dict[str, Any]\<close> of build parameters: keys in insertion order, values strings.\<close>

type_synonym params = "(string \<times> string) list"

datatype error =
    KeyError string
  | AttributeError string
  | IndexError string
  | ValueError string
  | TypeError string
  | ExternalError string

text \<open>Comparison of two \<^verbatim>\<open>str\<close> values: lexicographic, by code point.\<close>

fun str_less :: "string \<Rightarrow> string \<Rightarrow> bool" where
  "str_less [] [] = False"
| "str_less [] (y # ys) = True"
| "str_less (x # xs) [] = False"
| "str_less (x # xs) (y # ys) =
     ((of_char x :: nat) < of_char y \<or> (x = y \<and> str_less xs ys))"

text \<open>\<^verbatim>\<open>max(a, b)\<close> keeps \<open>a\<close> unless \<open>b > a\<close>.\<close>

definition py_max :: "string \<Rightarrow> string \<Rightarrow> string" where
  "py_max a b = (if str_less a b then b else a)"

fun startswith :: "string \<Rightarrow> string \<Rightarrow> bool" where
  "startswith s [] = True"
| "startswith [] (p # ps) = False"
| "startswith (c # cs) (p # ps) = (c = p \<and> startswith cs ps)"

text \<open>\<^verbatim>\<open>sub in s\<close> on strings.\<close>

fun str_contains :: "string \<Rightarrow> string \<Rightarrow> bool" where
  "str_contains [] sub = (sub = [])"
| "str_contains (c # cs) sub = (startswith (c # cs) sub \<or> str_contains cs sub)"

definition lower_char :: "char \<Rightarrow> char" where
  "lower_char c =
     (if 65 \<le> (of_char c :: nat) \<and> (of_char c :: nat) \<le> 90
      then char_of ((of_char c :: nat) + 32) else c)"

definition lower :: "string \<Rightarrow> string" where
  "lower s = map lower_char s"

text \<open>\<^verbatim>\<open>s.replace(a, b)\<close> for a single character \<open>a\<close>.\<close>

definition replace_char :: "char \<Rightarrow> char \<Rightarrow> string \<Rightarrow> string" where
  "replace_char a b s = map (\<lambda>c. if c = a then b else c) s"

fun join :: "string \<Rightarrow> string list \<Rightarrow> string" where
  "join sep [] = []"
| "join sep [x] = x"
| "join sep (x # y # ys) = x @ sep @ join sep (y # ys)"

text \<open>\<^verbatim>\<open>xs[-n:]\<close>\<close>

definition last_n :: "nat \<Rightarrow> 'a list \<Rightarrow> 'a list" where
  "last_n n xs = drop (length xs - n) xs"

text \<open>\<^verbatim>\<open>str(n)\<close> of an integer, in decimal.\<close>

definition digit_char :: "nat \<Rightarrow> char" where
  "digit_char d = char_of (48 + d)"

function str_nat :: "nat \<Rightarrow> string" where
  "str_nat n = (if n < 10 then [digit_char n] else str_nat (n div 10) @ [digit_char (n mod 10)])"
  by pat_completeness auto
termination
  by (relation "measure id") auto

definition str_int :: "int \<Rightarrow> string" where
  "str_int i = (if i < 0 then CHR ''-'' # str_nat (nat (- i)) else str_nat (nat i))"

text \<open>The first position of a list whose element satisfies a test: a \<^verbatim>\<open>for\<close> loop
  that stops with \<^verbatim>\<open>break\<close> at the first hit.\<close>

fun find_first :: "('a \<Rightarrow> bool) \<Rightarrow> 'a list \<Rightarrow> nat option" where
  "find_first P [] = None"
| "find_first P (x # xs) = (if P x then Some 0 else map_option Suc (find_first P xs))"

section \<open>Data model\<close>

record build_info =
  job_name :: string
  build_number :: int
  result :: string
  bi_timestamp :: time
  duration :: int
  parameters :: params
  url :: string
  console_log :: "string option"

text \<open>One entry of \<^verbatim>\<open>error_patterns\<close>: a dictionary read with
  \<^verbatim>\<open>error['pattern']\<close>, \<^verbatim>\<open>error_pattern.get('pattern', '')\<close> and
  \<^verbatim>\<open>error_pattern.get('type', 'unknown')\<close>; an absent key is \<open>None\<close>.\<close>

record error_pattern =
  ep_pattern :: "string option"
  ep_type :: "string option"
  ep_context :: "string option"

record build_analysis =
  build_info :: build_info
  last_success :: "build_info option"
  error_patterns :: "error_pattern list"
  differences :: "(string \<times> string) list"
  recommendations :: "string list"
  severity :: string
  confidence :: real
  timestamp :: time

text \<open>A solution dictionary; an absent key is \<open>None\<close>.\<close>

record solution =
  s_type :: "string option"
  s_parameters :: "params option"
  s_message :: "string option"
  s_reason :: "string option"
  s_max_retries :: "int option"

definition empty_solution :: solution where
  "empty_solution = \<lparr>s_type = None, s_parameters = None, s_message = None,
     s_reason = None, s_max_retries = None\<rparr>"

record failure_context =
  c_build_number :: int
  c_timestamp :: time
  c_parameters :: params
  c_duration :: int

text \<open>One entry of the parameter diff, tagged by its \<^verbatim>\<open>'type'\<close>:
  \<^verbatim>\<open>{'type': 'removed', 'old': v, 'new': None}\<close>,
  \<^verbatim>\<open>{'type': 'added', 'old': None, 'new': v}\<close> or
  \<^verbatim>\<open>{'type': 'changed', 'old': v, 'new': w}\<close>.\<close>

datatype param_change = Removed string | Added string | Changed string string

text \<open>
  A pattern record is a dictionary. The keys \<^verbatim>\<open>pattern\<close>, \<^verbatim>\<open>frequency\<close>
  and \<^verbatim>\<open>last_seen\<close> are set wherever a record is made (the three learning
  functions, the batch extraction and the load from the database); every other key
  is read with \<^verbatim>\<open>.get\<close> or tested with \<^verbatim>\<open>in\<close> and is optional here.
\<close>

record pattern_rec =
  p_type :: "string option"
  p_pattern :: string
  p_frequency :: int
  p_last_seen :: time
  p_solution :: "solution option"
  p_severity :: "string option"
  p_confidence :: "real option"
  p_error_type :: "string option"
  p_contexts :: "failure_context list option"
  p_indicator :: "string option"
  p_success_rate :: "real option"
  p_build_params :: "params option"
  p_environment :: "params option"
  p_duration_range :: "(int \<times> int) option"
  p_parameter_changes :: "(string \<times> param_change) list option"
  p_success_build :: "int option"
  p_failure_build :: "int option"

text \<open>A record holding only the four keys common to all records.\<close>

definition plain_pattern :: "string \<Rightarrow> int \<Rightarrow> time \<Rightarrow> solution option \<Rightarrow> pattern_rec" where
  "plain_pattern k n t s =
     \<lparr>p_type = None, p_pattern = k, p_frequency = n, p_last_seen = t, p_solution = s,
      p_severity = None, p_confidence = None, p_error_type = None, p_contexts = None,
      p_indicator = None, p_success_rate = None, p_build_params = None,
      p_environment = None, p_duration_range = None, p_parameter_changes = None,
      p_success_build = None, p_failure_build = None\<rparr>"

text \<open>\<^verbatim>\<open>pattern_database\<close>: job name to the list of its records, and
  \<^verbatim>\<open>analysis_cache\<close>: build key to analysis; both in insertion order.\<close>

type_synonym pattern_db = "(string \<times> pattern_rec list) list"
type_synonym cache = "(string \<times> build_analysis) list"

text \<open>The key of a build in \<^verbatim>\<open>analysis_cache\<close> and \<^verbatim>\<open>action_history\<close>:
  \<^verbatim>\<open>f"{job_name}#{build_number}"\<close>.\<close>

definition cache_key :: "string \<Rightarrow> int \<Rightarrow> string" where
  "cache_key job n = job @ ''#'' @ str_int n"

text \<open>\<^verbatim>\<open>pattern_database.get(job, [])\<close>\<close>

definition db_get :: "pattern_db \<Rightarrow> string \<Rightarrow> pattern_rec list" where
  "db_get db job = (case map_of db job of None \<Rightarrow> [] | Some ps \<Rightarrow> ps)"

text \<open>\<^verbatim>\<open>if job not in pattern_database: pattern_database[job] = []\<close>\<close>

definition db_init :: "string \<Rightarrow> pattern_db \<Rightarrow> pattern_db" where
  "db_init job db = (if map_of db job = None then AList.update job [] db else db)"

text \<open>
  What the program takes from outside its own source: Python's \<^verbatim>\<open>hash\<close>, the
  \<^verbatim>\<open>str\<close> of containers and floats and \<^verbatim>\<open>float\<close> of a string (\<open>None\<close>
  for a \<^verbatim>\<open>ValueError\<close>), the regular-expression search (for a pattern and a text,
  the matches in order, each with its whole text and its groups, \<open>None\<close> for a group
  that took no part), and the Jenkins server. A call to the server returns \<open>None\<close> or
  the message of the exception it raised.
\<close>

record env =
  py_hash :: "string \<Rightarrow> int"
  str_param_items :: "(string \<times> string) list \<Rightarrow> string"
  str_diff_items :: "(string \<times> param_change) list \<Rightarrow> string"
  str_params :: "params \<Rightarrow> string"
  str_float :: "real \<Rightarrow> string"
  py_float :: "string \<Rightarrow> real option"
  finditer :: "string \<Rightarrow> string \<Rightarrow> (string \<times> string option list) list"
  build_job :: "string \<Rightarrow> params \<Rightarrow> string option"
  update_build_description :: "string \<Rightarrow> int \<Rightarrow> string \<Rightarrow> string option"

section \<open>Learning from a failed build\<close>

definition new_context :: "build_analysis \<Rightarrow> failure_context" where
  "new_context a =
     \<lparr>c_build_number = build_number (build_info a), c_timestamp = timestamp a,
      c_parameters = parameters (build_info a), c_duration = duration (build_info a)\<rparr>"

definition pattern_key :: "error_pattern \<Rightarrow> string" where
  "pattern_key ep = (case ep_pattern ep of None \<Rightarrow> [] | Some k \<Rightarrow> k)"

definition derive_initial_solution :: "error_pattern \<Rightarrow> solution option" where
  "derive_initial_solution ep =
     (let error_type = (case ep_type ep of None \<Rightarrow> ''unknown'' | Some t \<Rightarrow> t);
          pattern = pattern_key ep
      in if error_type = ''test_failure'' then
           Some (empty_solution\<lparr>s_type := Some ''retry'',
                   s_reason := Some ''Test failures often resolve on retry'',
                   s_max_retries := Some 2\<rparr>)
         else if error_type = ''dependency_issue'' then
           Some (empty_solution\<lparr>s_type := Some ''parameter_adjust'',
                   s_parameters := Some [(''clean_dependencies'', ''true'')],
                   s_reason := Some ''Clean dependency cache and retry''\<rparr>)
         else if error_type = ''compilation_error'' then
           Some (empty_solution\<lparr>s_type := Some ''notification'',
                   s_message := Some (''Compilation error detected: '' @ pattern),
                   s_reason := Some ''Code changes needed, notify development team''\<rparr>)
         else if str_contains (lower pattern) ''timeout'' then
           Some (empty_solution\<lparr>s_type := Some ''parameter_adjust'',
                   s_parameters := Some [(''timeout'', ''1800'')],
                   s_reason := Some ''Increase timeout for long-running builds''\<rparr>)
         else if str_contains (lower pattern) ''out of memory''
                 \<or> str_contains (lower pattern) ''oom'' then
           Some (empty_solution\<lparr>s_type := Some ''parameter_adjust'',
                   s_parameters := Some [(''memory'', ''4g'')],
                   s_reason := Some ''Increase memory allocation''\<rparr>)
         else None)"

definition is_failure_with :: "string \<Rightarrow> pattern_rec \<Rightarrow> bool" where
  "is_failure_with k p \<longleftrightarrow> p_type p = Some ''failure'' \<and> p_pattern p = k"

text \<open>The branch \<^verbatim>\<open>if existing_pattern:\<close> of \<^verbatim>\<open>update_failure_patterns\<close>.\<close>

definition bump_failure :: "time \<Rightarrow> build_analysis \<Rightarrow> pattern_rec \<Rightarrow> pattern_rec" where
  "bump_failure now a p =
     p\<lparr>p_frequency := p_frequency p + 1,
       p_last_seen := now,
       p_severity := Some (py_max (case p_severity p of None \<Rightarrow> ''medium'' | Some s \<Rightarrow> s)
                                   (severity a)),
       p_contexts := Some (last_n 10
          ((case p_contexts p of None \<Rightarrow> [] | Some cs \<Rightarrow> cs) @ [new_context a]))\<rparr>"

text \<open>The \<^verbatim>\<open>else\<close> branch: the new record, with its initial solution if one is derived.\<close>

definition new_failure :: "time \<Rightarrow> build_analysis \<Rightarrow> error_pattern \<Rightarrow> pattern_rec" where
  "new_failure now a ep =
     (plain_pattern (pattern_key ep) 1 now (derive_initial_solution ep))
       \<lparr>p_type := Some ''failure'',
        p_severity := Some (severity a),
        p_confidence := Some (confidence a),
        p_error_type := Some (case ep_type ep of None \<Rightarrow> ''unknown'' | Some t \<Rightarrow> t),
        p_contexts := Some [new_context a]\<rparr>"

text \<open>The body of the loop over \<^verbatim>\<open>analysis.error_patterns\<close>.\<close>

definition record_error_pattern ::
  "time \<Rightarrow> build_analysis \<Rightarrow> pattern_rec list \<Rightarrow> error_pattern \<Rightarrow> pattern_rec list" where
  "record_error_pattern now a ps ep =
     (case find_first (is_failure_with (pattern_key ep)) ps of
        Some i \<Rightarrow> ps[i := bump_failure now a (ps ! i)]
      | None \<Rightarrow> ps @ [new_failure now a ep])"

section \<open>Correlating a failure with the last cached success\<close>

text \<open>The loop runs over a Python set of keys, whose order is not fixed; the keys of
  the current build come first here, and the result is read as a dictionary.\<close>

definition compare_key :: "params \<Rightarrow> params \<Rightarrow> string \<Rightarrow> (string \<times> param_change) list" where
  "compare_key current_params success_params key =
     (case map_of current_params key of
        None \<Rightarrow> (case map_of success_params key of
                   None \<Rightarrow> []
                 | Some old \<Rightarrow> [(key, Removed old)])
      | Some new \<Rightarrow> (case map_of success_params key of
                   None \<Rightarrow> [(key, Added new)]
                 | Some old \<Rightarrow> if new \<noteq> old then [(key, Changed old new)] else []))"

definition compare_build_parameters :: "params \<Rightarrow> params \<Rightarrow> (string \<times> param_change) list" where
  "compare_build_parameters current_params success_params =
     (let all_keys = remdups (map fst current_params @ map fst success_params)
      in concat (map (compare_key current_params success_params) all_keys))"

text \<open>\<^verbatim>\<open>max(successful_analyses, key=lambda x: x.build_info.build_number)\<close>:
  the first analysis with the greatest build number.\<close>

fun max_by_build_number :: "build_analysis \<Rightarrow> build_analysis list \<Rightarrow> build_analysis" where
  "max_by_build_number m [] = m"
| "max_by_build_number m (x # xs) =
     max_by_build_number
       (if build_number (build_info m) < build_number (build_info x) then x else m) xs"

text \<open>\<^verbatim>\<open>sorted(d.items())\<close> of a dictionary with string keys.\<close>

fun insert_item :: "string \<times> 'a \<Rightarrow> (string \<times> 'a) list \<Rightarrow> (string \<times> 'a) list" where
  "insert_item x [] = [x]"
| "insert_item x (y # ys) =
     (if str_less (fst x) (fst y) then x # y # ys else y # insert_item x ys)"

definition sorted_items :: "(string \<times> 'a) list \<Rightarrow> (string \<times> 'a) list" where
  "sorted_items xs = foldr insert_item xs []"

text \<open>\<^verbatim>\<open>{k: v['old'] for k, v in param_diff.items() if v['type'] == 'changed'}\<close>\<close>

fun revert_entry :: "string \<times> param_change \<Rightarrow> params" where
  "revert_entry (k, Changed old new) = [(k, old)]"
| "revert_entry (k, Removed old) = []"
| "revert_entry (k, Added new) = []"

definition revert_parameters :: "(string \<times> param_change) list \<Rightarrow> params" where
  "revert_parameters param_diff = concat (map revert_entry param_diff)"

definition successful_analyses :: "cache \<Rightarrow> build_analysis \<Rightarrow> build_analysis list" where
  "successful_analyses c a =
     map snd (filter (\<lambda>(key, cached).
        startswith key (job_name (build_info a) @ ''#'')
        \<and> result (build_info cached) = ''SUCCESS''
        \<and> build_number (build_info cached) < build_number (build_info a)) c)"

definition correlation_pattern ::
  "env \<Rightarrow> time \<Rightarrow> build_analysis \<Rightarrow> build_analysis \<Rightarrow> (string \<times> param_change) list
     \<Rightarrow> pattern_rec" where
  "correlation_pattern e now a latest_success param_diff =
     (plain_pattern
        (''param_change_'' @ str_int (py_hash e (str_diff_items e (sorted_items param_diff))))
        1 now
        (Some (empty_solution\<lparr>s_type := Some ''parameter_adjust'',
                 s_parameters := Some (revert_parameters param_diff),
                 s_reason := Some ''Revert parameter changes that may have caused failure''\<rparr>)))
       \<lparr>p_type := Some ''correlation'',
        p_parameter_changes := Some param_diff,
        p_success_build := Some (build_number (build_info latest_success)),
        p_failure_build := Some (build_number (build_info a))\<rparr>"

text \<open>The most recent successful build in the cache, if there is one.\<close>

definition latest_success :: "cache \<Rightarrow> build_analysis \<Rightarrow> build_analysis option" where
  "latest_success c a =
     (case successful_analyses c a of
        [] \<Rightarrow> None
      | s # ss \<Rightarrow> Some (max_by_build_number s ss))"

text \<open>The records \<^verbatim>\<open>_correlate_failure_with_success\<close> appends: none or one.\<close>

definition correlations :: "env \<Rightarrow> cache \<Rightarrow> time \<Rightarrow> build_analysis \<Rightarrow> pattern_rec list" where
  "correlations e c now a =
     (case latest_success c a of
        None \<Rightarrow> []
      | Some latest \<Rightarrow>
          (let param_diff = compare_build_parameters (parameters (build_info a))
                              (parameters (build_info latest))
           in if param_diff = [] then []
              else [correlation_pattern e now a latest param_diff]))"

definition correlate_failure_with_success ::
  "env \<Rightarrow> cache \<Rightarrow> time \<Rightarrow> build_analysis \<Rightarrow> pattern_db \<Rightarrow> pattern_db" where
  "correlate_failure_with_success e c now a db =
     (case correlations e c now a of
        [] \<Rightarrow> db
      | cs \<Rightarrow> (let job = job_name (build_info a); db1 = db_init job db
               in AList.update job (db_get db1 job @ cs) db1))"

definition update_failure_patterns ::
  "env \<Rightarrow> cache \<Rightarrow> time \<Rightarrow> build_analysis \<Rightarrow> pattern_db \<Rightarrow> pattern_db" where
  "update_failure_patterns e c now a db =
     (let job = job_name (build_info a);
          db1 = db_init job db;
          ps = foldl (record_error_pattern now a) (db_get db1 job) (error_patterns a)
      in correlate_failure_with_success e c now a (AList.update job ps db1))"

section \<open>Pruning, matching and batch extraction\<close>

text \<open>\<^verbatim>\<open>cleanup_patterns\<close>: every job keeps the records with
  \<^verbatim>\<open>now - pattern['last_seen'] < timedelta(days=30)\<close>.\<close>

definition cleanup_patterns :: "time \<Rightarrow> pattern_db \<Rightarrow> pattern_db" where
  "cleanup_patterns now db =
     map (\<lambda>(job, ps). (job, filter (\<lambda>p. now - p_last_seen p < timedelta_days 30) ps)) db"

text \<open>\<^verbatim>\<open>any(error['pattern'] == pattern_str for error in analysis.error_patterns)\<close>:
  stops at the first equal entry, and raises at an entry without the key.\<close>

fun any_pattern_equal :: "string \<Rightarrow> error_pattern list \<Rightarrow> error + bool" where
  "any_pattern_equal pattern_str [] = Inr False"
| "any_pattern_equal pattern_str (ep # eps) =
     (case ep_pattern ep of
        None \<Rightarrow> Inl (KeyError ''pattern'')
      | Some k \<Rightarrow> if k = pattern_str then Inr True else any_pattern_equal pattern_str eps)"

definition pattern_matches :: "pattern_rec \<Rightarrow> build_analysis \<Rightarrow> error + bool" where
  "pattern_matches p a = any_pattern_equal (p_pattern p) (error_patterns a)"

fun collect_matches :: "build_analysis \<Rightarrow> pattern_rec list \<Rightarrow> pattern_rec list \<Rightarrow> error + pattern_rec list" where
  "collect_matches a matches [] = Inr matches"
| "collect_matches a matches (p # ps) =
     (case pattern_matches p a of
        Inl err \<Rightarrow> Inl err
      | Inr b \<Rightarrow> collect_matches a (if b then matches @ [p] else matches) ps)"

definition match_known_patterns :: "pattern_db \<Rightarrow> build_analysis \<Rightarrow> error + pattern_rec list" where
  "match_known_patterns db a = collect_matches a [] (db_get db (job_name (build_info a)))"

text \<open>\<^verbatim>\<open>error_counts[key] = error_counts.get(key, 0) + 1\<close> over the entries of one
  analysis, then over all analyses.\<close>

fun count_errors :: "(string \<times> int) list \<Rightarrow> error_pattern list \<Rightarrow> error + (string \<times> int) list" where
  "count_errors error_counts [] = Inr error_counts"
| "count_errors error_counts (ep # eps) =
     (case ep_pattern ep of
        None \<Rightarrow> Inl (KeyError ''pattern'')
      | Some key \<Rightarrow>
          count_errors
            (AList.update key ((case map_of error_counts key of None \<Rightarrow> 0 | Some n \<Rightarrow> n) + 1)
               error_counts) eps)"

fun count_analyses :: "(string \<times> int) list \<Rightarrow> build_analysis list \<Rightarrow> error + (string \<times> int) list" where
  "count_analyses error_counts [] = Inr error_counts"
| "count_analyses error_counts (a # as) =
     (case count_errors error_counts (error_patterns a) of
        Inl err \<Rightarrow> Inl err
      | Inr error_counts' \<Rightarrow> count_analyses error_counts' as)"

definition derive_solution :: "string \<Rightarrow> build_analysis list \<Rightarrow> solution option" where
  "derive_solution pattern analyses = None"

definition extract_patterns :: "time \<Rightarrow> build_analysis list \<Rightarrow> error + pattern_rec list" where
  "extract_patterns now analyses =
     (case count_analyses [] analyses of
        Inl err \<Rightarrow> Inl err
      | Inr error_counts \<Rightarrow>
          Inr (map (\<lambda>(pattern, count).
                      plain_pattern pattern count now (derive_solution pattern analyses))
                 (filter (\<lambda>(pattern, count). count \<ge> 3) error_counts)))"

section \<open>Learning from a successful build\<close>

text \<open>A success indicator: the keys \<^verbatim>\<open>pattern\<close> and \<^verbatim>\<open>type\<close>, and one of
  \<^verbatim>\<open>environment\<close>, \<^verbatim>\<open>duration\<close>, \<^verbatim>\<open>matched_text\<close>.\<close>

record indicator =
  i_pattern :: string
  i_type :: string
  i_environment :: "params option"
  i_duration :: "int option"
  i_matched_text :: "string option"

definition stable_params :: "string list" where
  "stable_params = [''branch'', ''environment'', ''version'']"

definition param_indicators :: "params \<Rightarrow> params" where
  "param_indicators ps =
     concat (map (\<lambda>param. case map_of ps param of None \<Rightarrow> [] | Some v \<Rightarrow> [(param, v)])
               stable_params)"

definition success_patterns :: "string list" where
  "success_patterns =
     [''BUILD SUCCESSFUL'', ''Tests run: .* Failures: 0'', ''All tests passed'',
      ''Compilation successful'', ''No errors found'']"

definition extract_log_success_indicators :: "string \<Rightarrow> indicator list" where
  "extract_log_success_indicators console =
     concat (map (\<lambda>pattern.
        if str_contains (lower console) (lower pattern)
        then [\<lparr>i_pattern = ''log_success_'' @ lower (replace_char CHR '' '' CHR ''_'' pattern),
               i_type = ''log_indicator'', i_environment = None, i_duration = None,
               i_matched_text = Some pattern\<rparr>]
        else []) success_patterns)"

definition extract_success_indicators :: "env \<Rightarrow> build_analysis \<Rightarrow> indicator list" where
  "extract_success_indicators e a =
     (let found = param_indicators (parameters (build_info a));
          d = duration (build_info a)
      in (if found \<noteq> []
          then [\<lparr>i_pattern = ''stable_params_''
                    @ str_int (py_hash e (str_param_items e (sorted_items found))),
                 i_type = ''parameters'', i_environment = Some found, i_duration = None,
                 i_matched_text = None\<rparr>]
          else [])
         @ (if d \<noteq> 0
            then [\<lparr>i_pattern = ''timing_'' @ (if d < 300 then ''fast'' else ''normal''),
                   i_type = ''timing'', i_environment = None, i_duration = Some d,
                   i_matched_text = None\<rparr>]
            else [])
         @ (case console_log (build_info a) of
              None \<Rightarrow> []
            | Some console \<Rightarrow>
                if console = [] then [] else extract_log_success_indicators console))"

definition is_success_with :: "string \<Rightarrow> pattern_rec \<Rightarrow> bool" where
  "is_success_with k p \<longleftrightarrow> p_type p = Some ''success'' \<and> p_indicator p = Some k"

definition bump_success :: "time \<Rightarrow> pattern_rec \<Rightarrow> pattern_rec" where
  "bump_success now p =
     p\<lparr>p_frequency := p_frequency p + 1,
       p_last_seen := now,
       p_success_rate :=
         Some (min 1 ((case p_success_rate p of None \<Rightarrow> 8 / 10 | Some r \<Rightarrow> r) + 1 / 10))\<rparr>"

definition new_success :: "time \<Rightarrow> build_analysis \<Rightarrow> indicator \<Rightarrow> pattern_rec" where
  "new_success now a ind =
     (plain_pattern (i_pattern ind) 1 now None)
       \<lparr>p_type := Some ''success'',
        p_indicator := Some (i_pattern ind),
        p_success_rate := Some (9 / 10),
        p_build_params := Some (parameters (build_info a)),
        p_environment := Some (case i_environment ind of None \<Rightarrow> [] | Some env \<Rightarrow> env),
        p_duration_range := Some (duration (build_info a), duration (build_info a))\<rparr>"

definition record_indicator ::
  "time \<Rightarrow> build_analysis \<Rightarrow> pattern_rec list \<Rightarrow> indicator \<Rightarrow> pattern_rec list" where
  "record_indicator now a ps ind =
     (case find_first (is_success_with (i_pattern ind)) ps of
        Some i \<Rightarrow> ps[i := bump_success now (ps ! i)]
      | None \<Rightarrow> ps @ [new_success now a ind])"

definition update_success_patterns ::
  "env \<Rightarrow> time \<Rightarrow> build_analysis \<Rightarrow> pattern_db \<Rightarrow> pattern_db" where
  "update_success_patterns e now a db =
     (let job = job_name (build_info a);
          db1 = db_init job db;
          ps = foldl (record_indicator now a) (db_get db1 job) (extract_success_indicators e a)
      in AList.update job ps db1)"

section \<open>The periodic refresh of the store\<close>










text \<open>The invariant on one job's records.\<close>

definition has_type :: "string \<Rightarrow> pattern_rec \<Rightarrow> bool" where
  "has_type t p \<longleftrightarrow> p_type p = Some t"






section \<open>Inspecting the console log\<close>

type_synonym re_match = "string \<times> string option list"

definition bs :: string where
  "bs = [CHR 0x5C]"

text \<open>A loop whose body may raise.\<close>

fun fold_err :: "('s \<Rightarrow> 'x \<Rightarrow> error + 's) \<Rightarrow> 's \<Rightarrow> 'x list \<Rightarrow> error + 's" where
  "fold_err f s [] = Inr s"
| "fold_err f s (x # xs) = (case f s x of Inl err \<Rightarrow> Inl err | Inr s' \<Rightarrow> fold_err f s' xs)"

text \<open>\<^verbatim>\<open>re.finditer(pattern, log)\<close>; a log that is \<^verbatim>\<open>None\<close> raises.\<close>

definition matches_of :: "env \<Rightarrow> string \<Rightarrow> string option \<Rightarrow> error + re_match list" where
  "matches_of e pattern console =
     (case console of
        None \<Rightarrow> Inl (TypeError ''expected string or bytes-like object'')
      | Some text \<Rightarrow> Inr (finditer e pattern text))"

text \<open>\<^verbatim>\<open>match.group(n)\<close> for \<open>n \<ge> 1\<close>.\<close>

definition group :: "re_match \<Rightarrow> nat \<Rightarrow> error + string option" where
  "group m n =
     (if 1 \<le> n \<and> n \<le> length (snd m) then Inr (snd m ! (n - 1))
      else Inl (IndexError ''no such group''))"

text \<open>\<^verbatim>\<open>int(s)\<close> of a captured group: the value of a string of decimal digits,
  \<^verbatim>\<open>ValueError\<close> for any other string the patterns capture.\<close>

definition is_digit :: "char \<Rightarrow> bool" where
  "is_digit ch \<longleftrightarrow> 48 \<le> (of_char ch :: nat) \<and> (of_char ch :: nat) \<le> 57"

definition py_int :: "string option \<Rightarrow> error + int" where
  "py_int g =
     (case g of
        None \<Rightarrow> Inl (TypeError ''int() argument must be a string'')
      | Some s \<Rightarrow>
          if s \<noteq> [] \<and> list_all is_digit s
          then Inr (foldl (\<lambda>n ch. 10 * n + (int (of_char ch) - 48)) 0 s)
          else Inl (ValueError ''invalid literal for int()''))"

definition to_float :: "env \<Rightarrow> string option \<Rightarrow> error + real" where
  "to_float e g =
     (case g of
        None \<Rightarrow> Inl (TypeError ''float() argument must be a string'')
      | Some s \<Rightarrow> (case py_float e s of
                     None \<Rightarrow> Inl (ValueError ''could not convert string to float'')
                   | Some x \<Rightarrow> Inr x))"

text \<open>\<^verbatim>\<open>str(x)\<close> inside an f-string, for a value that may be \<^verbatim>\<open>None\<close>.\<close>

definition str_opt :: "string option \<Rightarrow> string" where
  "str_opt x = (case x of None \<Rightarrow> ''None'' | Some s \<Rightarrow> s)"

text \<open>A Python value as the test handling meets it.\<close>

datatype pyobj = PyNone | PyStr string | PyDict "(string \<times> string) list"

record test_results =
  failed_tests :: "pyobj list"
  error_count :: int
  failure_count :: int
  skipped_count :: int

definition failed_test_patterns :: "string list" where
  "failed_test_patterns =
     [''Tests run: ('' @ bs @ ''d+), Failures: ('' @ bs @ ''d+), Errors: ('' @ bs
        @ ''d+), Skipped: ('' @ bs @ ''d+)'',
      ''FAIL: (['' @ bs @ ''w'' @ bs @ ''.]+)'',
      ''Failed tests:('' @ bs @ ''n'' @ bs @ ''s+['' @ bs @ ''w'' @ bs @ ''.]+)*'']"

definition test_match :: "test_results \<Rightarrow> re_match \<Rightarrow> error + test_results" where
  "test_match tr m =
     (if length (snd m) = 4 then
        (case group m 2 of Inl err \<Rightarrow> Inl err | Inr g2 \<Rightarrow>
         case py_int g2 of Inl err \<Rightarrow> Inl err | Inr failures \<Rightarrow>
         case group m 3 of Inl err \<Rightarrow> Inl err | Inr g3 \<Rightarrow>
         case py_int g3 of Inl err \<Rightarrow> Inl err | Inr errors \<Rightarrow>
         case group m 4 of Inl err \<Rightarrow> Inl err | Inr g4 \<Rightarrow>
         case py_int g4 of Inl err \<Rightarrow> Inl err | Inr skipped \<Rightarrow>
           Inr (tr\<lparr>failure_count := failure_count tr + failures,
                    error_count := error_count tr + errors,
                    skipped_count := skipped_count tr + skipped\<rparr>))
      else
        (case group m 1 of
           Inl err \<Rightarrow> Inl err
         | Inr g \<Rightarrow>
             Inr (tr\<lparr>failed_tests :=
                    failed_tests tr @ [case g of None \<Rightarrow> PyNone | Some s \<Rightarrow> PyStr s]\<rparr>)))"

definition analyze_test_failures :: "env \<Rightarrow> string option \<Rightarrow> error + test_results" where
  "analyze_test_failures e console =
     fold_err (\<lambda>tr pattern.
         case matches_of e pattern console of
           Inl err \<Rightarrow> Inl err
         | Inr ms \<Rightarrow> fold_err test_match tr ms)
       \<lparr>failed_tests = [], error_count = 0, failure_count = 0, skipped_count = 0\<rparr>
       failed_test_patterns"

record timing_info =
  total_time :: "real option"
  slow_phases :: "(string option \<times> real) list"
  phase_times :: "(string option \<times> real) list"

definition time_patterns :: "string list" where
  "time_patterns =
     [''Total time: (['' @ bs @ ''d'' @ bs @ ''.]+) s'',
      ''Finished: ('' @ bs @ ''w+) '' @ bs @ ''(at (.*)'' @ bs @ '') '' @ bs @ ''[(['' @ bs
        @ ''d'' @ bs @ ''.]+) s'' @ bs @ '']'',
      ''BUILD ('' @ bs @ ''w+) in (['' @ bs @ ''d'' @ bs @ ''.]+)s'']"

definition phase_pattern :: string where
  "phase_pattern =
     bs @ ''[('' @ bs @ ''w+)'' @ bs @ ''] (.*?) '' @ bs @ ''[(['' @ bs @ ''d'' @ bs
       @ ''.]+)s'' @ bs @ '']''"

definition time_match :: "env \<Rightarrow> timing_info \<Rightarrow> re_match \<Rightarrow> error + timing_info" where
  "time_match e ti m =
     (if snd m = [] then Inr ti
      else case to_float e (last (snd m)) of
             Inl err \<Rightarrow> Inl err
           | Inr t \<Rightarrow>
               Inr (if total_time ti = None \<or> total_time ti = Some 0
                       \<or> (case total_time ti of None \<Rightarrow> False | Some best \<Rightarrow> t > best)
                    then ti\<lparr>total_time := Some t\<rparr> else ti))"

definition phase_match :: "env \<Rightarrow> timing_info \<Rightarrow> re_match \<Rightarrow> error + timing_info" where
  "phase_match e ti m =
     (case group m 2 of Inl err \<Rightarrow> Inl err | Inr phase \<Rightarrow>
      case group m 3 of Inl err \<Rightarrow> Inl err | Inr g3 \<Rightarrow>
      case to_float e g3 of Inl err \<Rightarrow> Inl err | Inr t \<Rightarrow>
        Inr (ti\<lparr>phase_times := AList.update phase t (phase_times ti),
                 slow_phases := (if t > 60 then slow_phases ti @ [(phase, t)]
                                 else slow_phases ti)\<rparr>))"

definition analyze_build_time :: "env \<Rightarrow> string option \<Rightarrow> error + timing_info" where
  "analyze_build_time e console =
     (case fold_err (\<lambda>ti pattern.
               case matches_of e pattern console of
                 Inl err \<Rightarrow> Inl err
               | Inr ms \<Rightarrow> fold_err (time_match e) ti ms)
             \<lparr>total_time = None, slow_phases = [], phase_times = []\<rparr> time_patterns of
        Inl err \<Rightarrow> Inl err
      | Inr ti \<Rightarrow> (case matches_of e phase_pattern console of
                     Inl err \<Rightarrow> Inl err
                   | Inr ms \<Rightarrow> fold_err (phase_match e) ti ms))"

text \<open>An issue dictionary; the analysers set \<^verbatim>\<open>type\<close>, \<^verbatim>\<open>message\<close> and their own
  keys, and the handlers read further keys with \<^verbatim>\<open>.get\<close>.\<close>

record dependency_issue =
  d_type :: "string option"
  d_message :: "string option"
  d_artifact :: "string option"
  d_name :: "string option"
  d_version :: "string option"
  d_resolution :: "string option"

definition dependency_patterns :: "string list" where
  "dependency_patterns =
     [''Could not resolve dependencies for project (.*?): Failed to collect dependencies for ''
        @ bs @ ''[(.*?)'' @ bs @ '']'',
      ''Could not find artifact (.*?) in (.*)'',
      ''Failed to resolve: (.*?)'' @ bs @ ''n'',
      ''Unable to find version (.*?) for package (.*)'']"

definition dependency_match :: "dependency_issue list \<Rightarrow> re_match \<Rightarrow> error + dependency_issue list" where
  "dependency_match issues m =
     (if snd m = [] then
        Inr (issues @ [\<lparr>d_type = Some ''dependency_error'', d_message = Some (fst m),
                         d_artifact = None, d_name = None, d_version = None,
                         d_resolution = None\<rparr>])
      else case group m 1 of
             Inl err \<Rightarrow> Inl err
           | Inr g \<Rightarrow>
               Inr (issues @ [\<lparr>d_type = Some ''dependency_error'', d_message = Some (fst m),
                                d_artifact = g, d_name = None, d_version = None,
                                d_resolution = None\<rparr>]))"

definition analyze_dependency_issues :: "env \<Rightarrow> string option \<Rightarrow> error + dependency_issue list" where
  "analyze_dependency_issues e console =
     fold_err (\<lambda>issues pattern.
         case matches_of e pattern console of
           Inl err \<Rightarrow> Inl err
         | Inr ms \<Rightarrow> fold_err dependency_match issues ms)
       [] dependency_patterns"

record compilation_issue =
  ci_type :: "string option"
  ci_message :: "string option"
  ci_line :: "int option"
  ci_column :: "int option"
  ci_error :: "string option"
  ci_file :: "string option"

definition compilation_patterns :: "string list" where
  "compilation_patterns =
     [''(?m)^.*?'' @ bs @ ''.(?:java|groovy|kt):'' @ bs @ ''[('' @ bs @ ''d+),('' @ bs
        @ ''d+)'' @ bs @ ''] error: (.*?)$'',
      ''(?m)^.*?'' @ bs @ ''.(?:py):'' @ bs @ ''d+: (.*?)$'',
      ''(?m)^.*?'' @ bs @ ''.(?:ts|js):'' @ bs @ ''d+:'' @ bs @ ''d+: error (TS'' @ bs
        @ ''d+): (.*?)$'']"

definition compilation_match ::
  "compilation_issue list \<Rightarrow> re_match \<Rightarrow> error + compilation_issue list" where
  "compilation_match issues m =
     (let n = length (snd m) in
      case (if n > 1
            then (case group m 1 of Inl err \<Rightarrow> Inl err
                  | Inr g \<Rightarrow> (case py_int g of Inl err \<Rightarrow> Inl err | Inr i \<Rightarrow> Inr (Some i)))
            else Inr None) of
        Inl err \<Rightarrow> Inl err
      | Inr line \<Rightarrow>
      case (if n > 2
            then (case group m 2 of Inl err \<Rightarrow> Inl err
                  | Inr g \<Rightarrow> (case py_int g of Inl err \<Rightarrow> Inl err | Inr i \<Rightarrow> Inr (Some i)))
            else Inr None) of
        Inl err \<Rightarrow> Inl err
      | Inr column \<Rightarrow>
      case (if n > 2 then group m 3 else group m 1) of
        Inl err \<Rightarrow> Inl err
      | Inr err_text \<Rightarrow>
          Inr (issues @ [\<lparr>ci_type = Some ''compilation_error'', ci_message = Some (fst m),
                           ci_line = line, ci_column = column, ci_error = err_text,
                           ci_file = None\<rparr>]))"

definition analyze_compilation_issues :: "env \<Rightarrow> string option \<Rightarrow> error + compilation_issue list" where
  "analyze_compilation_issues e console =
     fold_err (\<lambda>issues pattern.
         case matches_of e pattern console of
           Inl err \<Rightarrow> Inl err
         | Inr ms \<Rightarrow> fold_err compilation_match issues ms)
       [] compilation_patterns"

section \<open>Handling a failed build\<close>

text \<open>\<^verbatim>\<open>test.get('package', 'unknown')\<close> on each failed test, grouping the tests by it
  in the order of first appearance; a test that is no dictionary has no \<^verbatim>\<open>get\<close>.\<close>

definition group_test ::
  "(string \<times> (string \<times> string) list list) list \<Rightarrow> pyobj
     \<Rightarrow> error + (string \<times> (string \<times> string) list list) list" where
  "group_test failure_groups test =
     (case test of
        PyDict d \<Rightarrow>
          (let g = (case map_of d ''package'' of None \<Rightarrow> ''unknown'' | Some pkg \<Rightarrow> pkg);
               old = (case map_of failure_groups g of None \<Rightarrow> [] | Some ts \<Rightarrow> ts)
           in Inr (AList.update g (old @ [d]) failure_groups))
      | PyStr s \<Rightarrow> Inl (AttributeError ''str object has no attribute get'')
      | PyNone \<Rightarrow> Inl (AttributeError ''NoneType object has no attribute get''))"

definition group_actions :: "string \<times> (string \<times> string) list list \<Rightarrow> string list" where
  "group_actions gt =
     (if length (snd gt) > 3
      then [''Multiple failures in '' @ fst gt @ '' - checking environment'']
      else map (\<lambda>test. ''Analyzing failure in '' @ str_opt (map_of test ''name'')) (snd gt))"

definition handle_test_failures :: "pyobj list \<Rightarrow> error + string" where
  "handle_test_failures tests =
     (if tests = [] then Inr ''No test failures to handle''
      else case fold_err group_test [] tests of
             Inl err \<Rightarrow> Inl err
           | Inr failure_groups \<Rightarrow> Inr (join ''; '' (concat (map group_actions failure_groups))))"

definition dependency_actions :: "dependency_issue \<Rightarrow> string list" where
  "dependency_actions issue =
     (if d_type issue = Some ''missing'' then
        [''Missing dependency: '' @ str_opt (d_name issue)]
        @ (if d_version issue \<noteq> None \<and> d_version issue \<noteq> Some []
           then [''Attempting to install version '' @ str_opt (d_version issue)] else [])
      else if d_type issue = Some ''version_conflict'' then
        [''Version conflict in '' @ str_opt (d_name issue)]
        @ (if d_resolution issue \<noteq> None \<and> d_resolution issue \<noteq> Some []
           then [''Suggested resolution: '' @ str_opt (d_resolution issue)] else [])
      else [])"

definition handle_dependency_issues :: "dependency_issue list \<Rightarrow> string" where
  "handle_dependency_issues issues =
     (let actions = concat (map dependency_actions issues)
      in if actions \<noteq> [] then join ''; '' actions else ''No dependency issues to handle'')"

definition compilation_actions :: "compilation_issue \<Rightarrow> string list" where
  "compilation_actions issue =
     (let issue_type = (case ci_type issue of None \<Rightarrow> ''unknown'' | Some t \<Rightarrow> t)
      in if issue_type = ''syntax_error'' then
           [''Syntax error in '' @ str_opt (ci_file issue) @ '': '' @ str_opt (ci_message issue)]
         else if issue_type = ''type_error'' then
           [''Type error: '' @ str_opt (ci_message issue)]
         else if issue_type = ''import_error'' then
           [''Import error: '' @ str_opt (ci_message issue)]
         else [])"

definition handle_compilation_issues :: "compilation_issue list \<Rightarrow> string" where
  "handle_compilation_issues issues =
     (let actions = concat (map compilation_actions issues)
      in if actions \<noteq> [] then join ''; '' actions else ''No compilation issues to handle'')"

text \<open>What an action dictionary holds besides its type; the time of recording stands
  for its ISO rendering.\<close>

datatype details =
    TestDetails test_results
  | DependencyDetails "dependency_issue list"
  | CompilationDetails "compilation_issue list"

record action =
  a_type :: "string option"
  a_pattern :: "string option"
  a_action :: "string option"
  a_result :: "string option"
  a_details :: "details option"
  a_timestamp :: time

text \<open>A request sent to the Jenkins server.\<close>

datatype request =
    BuildJob string params
  | UpdateBuildDescription string int string

record agent_state =
  analysis_cache :: cache
  pattern_database :: pattern_db
  action_history :: "(string \<times> action list) list"
  learning_enabled :: bool
  requests :: "request list"

definition record_action :: "time \<Rightarrow> string \<Rightarrow> action \<Rightarrow> agent_state \<Rightarrow> agent_state" where
  "record_action now build_key act st =
     st\<lparr>action_history :=
          AList.update build_key
            ((case map_of (action_history st) build_key of None \<Rightarrow> [] | Some acts \<Rightarrow> acts)
               @ [act\<lparr>a_timestamp := now\<rparr>])
            (action_history st)\<rparr>"

definition blank_action :: action where
  "blank_action = \<lparr>a_type = None, a_pattern = None, a_action = None, a_result = None,
     a_details = None, a_timestamp = 0\<rparr>"

definition retry_build :: "env \<Rightarrow> build_analysis \<Rightarrow> agent_state \<Rightarrow> string \<times> agent_state" where
  "retry_build e a st =
     (let job = job_name (build_info a); ps = parameters (build_info a);
          st' = st\<lparr>requests := requests st @ [BuildJob job ps]\<rparr>
      in case build_job e job ps of
           None \<Rightarrow> (''Build retried'', st')
         | Some msg \<Rightarrow> (''Retry failed: '' @ msg, st'))"

text \<open>\<^verbatim>\<open>new_params.update(adjustments)\<close>\<close>

definition dict_update :: "params \<Rightarrow> params \<Rightarrow> params" where
  "dict_update d other = foldl (\<lambda>acc kv. AList.update (fst kv) (snd kv) acc) d other"

definition adjust_build_parameters ::
  "env \<Rightarrow> build_analysis \<Rightarrow> params \<Rightarrow> agent_state \<Rightarrow> string \<times> agent_state" where
  "adjust_build_parameters e a adjustments st =
     (let job = job_name (build_info a);
          new_params = dict_update (parameters (build_info a)) adjustments;
          st' = st\<lparr>requests := requests st @ [BuildJob job new_params]\<rparr>
      in case build_job e job new_params of
           None \<Rightarrow> (''Build retried with adjusted parameters: '' @ str_params e adjustments, st')
         | Some msg \<Rightarrow> (''Parameter adjustment failed: '' @ msg, st'))"

definition apply_known_solution ::
  "env \<Rightarrow> time \<Rightarrow> pattern_rec \<Rightarrow> build_analysis \<Rightarrow> agent_state \<Rightarrow> string \<times> agent_state" where
  "apply_known_solution e now pattern a st =
     (let build_key = cache_key (job_name (build_info a)) (build_number (build_info a))
      in case p_solution pattern of
           None \<Rightarrow> (''No known solution'', st)
         | Some sol \<Rightarrow>
             if sol = empty_solution then (''No known solution'', st)
             else
               (let (res, st1) =
                      (if s_type sol = Some ''retry'' then
                         (let (r, s1) = retry_build e a st in (Some r, s1))
                       else if s_type sol = Some ''parameter_adjust'' then
                         (let (r, s1) = adjust_build_parameters e a
                                 (case s_parameters sol of None \<Rightarrow> [] | Some ps \<Rightarrow> ps) st
                          in (Some r, s1))
                       else if s_type sol = Some ''notification'' then (Some ''Team notified'', st)
                       else (None, st));
                    st2 = record_action now build_key
                            (blank_action\<lparr>a_type := s_type sol,
                               a_pattern := Some (p_pattern pattern), a_result := res\<rparr>) st1
                in (case res of
                      Some r \<Rightarrow> if r \<noteq> [] then r
                                else ''Unknown solution type: '' @ str_opt (s_type sol)
                    | None \<Rightarrow> ''Unknown solution type: '' @ str_opt (s_type sol),
                    st2)))"

text \<open>The loop over the matches: the solution is applied and a \<open>pattern_match\<close> action
  recorded for each.\<close>

definition apply_match ::
  "env \<Rightarrow> time \<Rightarrow> build_analysis \<Rightarrow> string list \<times> agent_state \<Rightarrow> pattern_rec
     \<Rightarrow> string list \<times> agent_state" where
  "apply_match e now a acc m =
     (let (act, st1) = apply_known_solution e now m a (snd acc);
          build_key = cache_key (job_name (build_info a)) (build_number (build_info a))
      in (fst acc @ [act],
          record_action now build_key
            (blank_action\<lparr>a_type := Some ''pattern_match'', a_pattern := Some (p_pattern m),
               a_action := Some act\<rparr>) st1))"

definition build_description :: "env \<Rightarrow> build_analysis \<Rightarrow> string list \<Rightarrow> string" where
  "build_description e a actions_taken =
     ''Build Analysis Report:'' @ [CHR 0x0A]
     @ ''- Severity: '' @ severity a @ [CHR 0x0A]
     @ ''- Confidence: '' @ str_float e (confidence a) @ [CHR 0x0A]
     @ ''- Actions Taken: '' @ join '', '' actions_taken @ [CHR 0x0A]
     @ ''- Recommendations: '' @ join '', '' (recommendations a)"

text \<open>\<^verbatim>\<open>handle_failure\<close>. It has no handler of its own: the first exception of a
  pass ends it, with the state as it is then. The posting of the description is inside a
  handler, so its failure is not an exception of \<^verbatim>\<open>handle_failure\<close>.\<close>

definition handle_failure ::
  "env \<Rightarrow> time \<Rightarrow> build_analysis \<Rightarrow> agent_state \<Rightarrow> error option \<times> agent_state" where
  "handle_failure e now a st =
     (let build_key = cache_key (job_name (build_info a)) (build_number (build_info a));
          console = console_log (build_info a)
      in case match_known_patterns (pattern_database st) a of
           Inl err \<Rightarrow> (Some err, st)
         | Inr matches \<Rightarrow>
      let (actions1, st1) = foldl (apply_match e now a) ([], st) matches
      in case analyze_test_failures e console of
           Inl err \<Rightarrow> (Some err, st1)
         | Inr tests \<Rightarrow>
      case analyze_build_time e console of
           Inl err \<Rightarrow> (Some err, st1)
         | Inr timing \<Rightarrow>
      case analyze_dependency_issues e console of
           Inl err \<Rightarrow> (Some err, st1)
         | Inr dependency_issues \<Rightarrow>
      case analyze_compilation_issues e console of
           Inl err \<Rightarrow> (Some err, st1)
         | Inr compilation_issues \<Rightarrow>
      case (if failed_tests tests \<noteq> []
            then (case handle_test_failures (failed_tests tests) of
                    Inl err \<Rightarrow> Inl err
                  | Inr act \<Rightarrow>
                      Inr (actions1 @ [act],
                           record_action now build_key
                             (blank_action\<lparr>a_type := Some ''test_failure'',
                                a_details := Some (TestDetails tests),
                                a_action := Some act\<rparr>) st1))
            else Inr (actions1, st1)) of
           Inl err \<Rightarrow> (Some err, st1)
         | Inr (actions2, st2) \<Rightarrow>
      let (actions3, st3) =
            (if dependency_issues \<noteq> []
             then (let act = handle_dependency_issues dependency_issues
                   in (actions2 @ [act],
                       record_action now build_key
                         (blank_action\<lparr>a_type := Some ''dependency_issue'',
                            a_details := Some (DependencyDetails dependency_issues),
                            a_action := Some act\<rparr>) st2))
             else (actions2, st2));
          (actions4, st4) =
            (if compilation_issues \<noteq> []
             then (let act = handle_compilation_issues compilation_issues
                   in (actions3 @ [act],
                       record_action now build_key
                         (blank_action\<lparr>a_type := Some ''compilation_issue'',
                            a_details := Some (CompilationDetails compilation_issues),
                            a_action := Some act\<rparr>) st3))
             else (actions3, st3))
      in (None,
          st4\<lparr>requests := requests st4
                 @ [UpdateBuildDescription (job_name (build_info a)) (build_number (build_info a))
                      (build_description e a actions4)]\<rparr>))"

section \<open>Analysing a build and learning from it\<close>



section \<open>Reading the store\<close>

text \<open>The Failure record of a key is the one the loop of
  \<^verbatim>\<open>update_failure_patterns\<close> stops at: the first of that type and key.\<close>

definition failure_record :: "string \<Rightarrow> pattern_rec list \<Rightarrow> pattern_rec option" where
  "failure_record k ps = find (is_failure_with k) ps"

definition success_record :: "string \<Rightarrow> pattern_rec list \<Rightarrow> pattern_rec option" where
  "success_record k ps = find (is_success_with k) ps"

definition frequency_of :: "string \<Rightarrow> pattern_rec list \<Rightarrow> int" where
  "frequency_of k ps = (case failure_record k ps of None \<Rightarrow> 0 | Some p \<Rightarrow> p_frequency p)"

definition contexts_of :: "string \<Rightarrow> pattern_rec list \<Rightarrow> failure_context list" where
  "contexts_of k ps =
     (case failure_record k ps of
        None \<Rightarrow> []
      | Some p \<Rightarrow> (case p_contexts p of None \<Rightarrow> [] | Some cs \<Rightarrow> cs))"

text \<open>\<^verbatim>\<open>pattern['solution']['parameters']\<close>, empty when there is none.\<close>

definition solution_parameters :: "pattern_rec \<Rightarrow> params" where
  "solution_parameters p =
     (case p_solution p of
        None \<Rightarrow> []
      | Some sol \<Rightarrow> (case s_parameters sol of None \<Rightarrow> [] | Some ps \<Rightarrow> ps))"

definition occurrences :: "string \<Rightarrow> build_analysis \<Rightarrow> nat" where
  "occurrences k a = count_list (map pattern_key (error_patterns a)) k"

text \<open>The number of entries with a key in a whole batch of analyses, and the counting
  dictionary of \<^verbatim>\<open>extract_patterns\<close> after a list of keys.\<close>

definition batch_occurrences :: "string \<Rightarrow> build_analysis list \<Rightarrow> nat" where
  "batch_occurrences k analyses = sum_list (map (occurrences k) analyses)"

definition tally :: "(string \<times> int) list \<Rightarrow> string list \<Rightarrow> (string \<times> int) list" where
  "tally counts ks =
     foldl (\<lambda>c key. AList.update key ((case map_of c key of None \<Rightarrow> 0 | Some n \<Rightarrow> n) + 1) c)
       counts ks"

type_synonym failure_call = "cache \<times> time \<times> build_analysis"

definition record_failures :: "env \<Rightarrow> failure_call list \<Rightarrow> pattern_db \<Rightarrow> pattern_db" where
  "record_failures e calls db =
     foldl (\<lambda>db (c, now, a). update_failure_patterns e c now a db) db calls"

definition observed_contexts :: "string \<Rightarrow> string \<Rightarrow> failure_call list \<Rightarrow> failure_context list" where
  "observed_contexts job k calls =
     concat (map (\<lambda>(c, now, a).
        if job_name (build_info a) = job then replicate (occurrences k a) (new_context a) else [])
       calls)"

section \<open>Sample values\<close>

definition ex_env :: env where
  "ex_env = \<lparr>py_hash = (\<lambda>s. 0), str_param_items = (\<lambda>xs. []), str_diff_items = (\<lambda>xs. []),
     str_params = (\<lambda>xs. []), str_float = (\<lambda>x. []), py_float = (\<lambda>s. None),
     finditer = (\<lambda>p s. []),
     build_job = (\<lambda>j ps. None), update_build_description = (\<lambda>j n d. None)\<rparr>"

definition ex_build :: "string \<Rightarrow> int \<Rightarrow> string \<Rightarrow> params \<Rightarrow> build_info" where
  "ex_build job n res ps =
     \<lparr>job_name = job, build_number = n, result = res, bi_timestamp = 0, duration = 1000,
      parameters = ps, url = [], console_log = None\<rparr>"

definition ex_error :: "string \<Rightarrow> error_pattern" where
  "ex_error k = \<lparr>ep_pattern = Some k, ep_type = None, ep_context = None\<rparr>"

definition ex_analysis :: "build_info \<Rightarrow> string list \<Rightarrow> string \<Rightarrow> build_analysis" where
  "ex_analysis b ks sev =
     \<lparr>build_info = b, last_success = None, error_patterns = map ex_error ks,
      differences = [], recommendations = [], severity = sev, confidence = 1 / 2,
      timestamp = 5\<rparr>"

definition ex_failing :: "string \<Rightarrow> build_analysis" where
  "ex_failing sev = ex_analysis (ex_build ''job'' 7 ''FAILURE'' []) [''E''] sev"

definition ex_doubled :: "int \<Rightarrow> build_analysis" where
  "ex_doubled n = ex_analysis (ex_build ''job'' n ''FAILURE'' []) [''E'', ''E''] ''LOW''"

text \<open>The store after a first failure with pattern \<open>E\<close> of the given severity.\<close>

definition ex_store :: "string \<Rightarrow> pattern_db" where
  "ex_store sev = update_failure_patterns ex_env [] 10 (ex_failing sev) []"

text \<open>A successful build with \<^verbatim>\<open>{env: prod, branch: main}\<close>.\<close>

definition ex_success :: build_analysis where
  "ex_success =
     ex_analysis (ex_build ''job'' 1 ''SUCCESS'' [(''env'', ''prod''), (''branch'', ''main'')]) []
       ''LOW''"

text \<open>The cache when build 6 of \<open>job\<close> fails with
  \<^verbatim>\<open>{env: staging, branch: main}\<close>: a failed build 5, successful builds 1 and 3 (the
  latter with \<^verbatim>\<open>{env: prod, branch: main}\<close>), a successful build 4 of another job, a
  successful build 7, and build 6 itself.\<close>

definition ex_dev :: build_analysis where
  "ex_dev =
     ex_analysis (ex_build ''job'' 1 ''SUCCESS'' [(''env'', ''dev''), (''branch'', ''main'')]) []
       ''LOW''"

definition ex_prod :: build_analysis where
  "ex_prod =
     ex_analysis (ex_build ''job'' 3 ''SUCCESS'' [(''env'', ''prod''), (''branch'', ''main'')]) []
       ''LOW''"

definition ex_broken :: build_analysis where
  "ex_broken =
     ex_analysis (ex_build ''job'' 5 ''FAILURE'' [(''env'', ''dev''), (''branch'', ''main'')])
       [''E''] ''HIGH''"

definition ex_other :: build_analysis where
  "ex_other = ex_analysis (ex_build ''other'' 4 ''SUCCESS'' [(''env'', ''qa'')]) [] ''LOW''"

definition ex_later :: build_analysis where
  "ex_later = ex_analysis (ex_build ''job'' 7 ''SUCCESS'' [(''env'', ''test'')]) [] ''LOW''"

definition ex_staging :: build_analysis where
  "ex_staging =
     ex_analysis (ex_build ''job'' 6 ''FAILURE'' [(''env'', ''staging''), (''branch'', ''main'')])
       [''E''] ''HIGH''"

definition ex_cache :: cache where
  "ex_cache =
     [(cache_key ''job'' 5, ex_broken), (cache_key ''job'' 1, ex_dev),
      (cache_key ''job'' 3, ex_prod), (cache_key ''other'' 4, ex_other),
      (cache_key ''job'' 7, ex_later), (cache_key ''job'' 6, ex_staging)]"

text \<open>The store after the successful build, and a failing build that reports the text
  \<open>timing_normal\<close> as its error pattern.\<close>

definition ex_learned :: pattern_db where
  "ex_learned = update_success_patterns ex_env 10 ex_success []"

definition ex_timing :: build_analysis where
  "ex_timing = ex_analysis (ex_build ''job'' 2 ''FAILURE'' []) [''timing_normal''] ''LOW''"

text \<open>Twelve failing builds of \<open>job\<close>, numbered 1 to 12, each reporting \<open>E\<close>.\<close>

definition ex_calls :: "failure_call list" where
  "ex_calls =
     map (\<lambda>n. ([], 20 + n, ex_analysis (ex_build ''job'' n ''FAILURE'' []) [''E''] ''LOW''))
       [1, 2, 3, 4, 5, 6, 7, 8, 9, 10, 11, 12]"





text \<open>A console log with four failing tests of package \<open>pkg.A\<close>, one
  \<^verbatim>\<open>FAIL: \<close> line each, and a search that finds what \<^verbatim>\<open>re.finditer\<close> finds in
  such a log: for the pattern \<^verbatim>\<open>FAIL: ([\w\.]+)\<close> the occurrences of \<^verbatim>\<open>FAIL: \<close>
  followed by letters, digits, underscores and dots, from left to right and without
  overlap, and nothing for the other patterns, none of which occurs in it.\<close>

definition is_word_or_dot :: "char \<Rightarrow> bool" where
  "is_word_or_dot ch \<longleftrightarrow>
     (let n = (of_char ch :: nat)
      in (48 \<le> n \<and> n \<le> 57) \<or> (65 \<le> n \<and> n \<le> 90) \<or> (97 \<le> n \<and> n \<le> 122)
         \<or> n = 95 \<or> n = 46)"

fun fail_matches :: "nat \<Rightarrow> string \<Rightarrow> re_match list" where
  "fail_matches skip [] = []"
| "fail_matches skip (ch # rest) =
     (if skip > 0 then fail_matches (skip - 1) rest
      else if startswith (ch # rest) ''FAIL: ''
              \<and> takeWhile is_word_or_dot (drop 6 (ch # rest)) \<noteq> []
      then (''FAIL: '' @ takeWhile is_word_or_dot (drop 6 (ch # rest)),
            [Some (takeWhile is_word_or_dot (drop 6 (ch # rest)))])
           # fail_matches (5 + length (takeWhile is_word_or_dot (drop 6 (ch # rest)))) rest
      else fail_matches 0 rest)"

definition ex_log :: string where
  "ex_log = ''FAIL: pkg.A.t1'' @ [CHR 0x0A] @ ''FAIL: pkg.A.t2'' @ [CHR 0x0A]
     @ ''FAIL: pkg.A.t3'' @ [CHR 0x0A] @ ''FAIL: pkg.A.t4'' @ [CHR 0x0A]"

definition ex_test_env :: env where
  "ex_test_env =
     ex_env\<lparr>finditer := (\<lambda>pattern text.
        if pattern = ''FAIL: (['' @ bs @ ''w'' @ bs @ ''.]+)'' then fail_matches 0 text else [])\<rparr>"

definition ex_flaky :: build_analysis where
  "ex_flaky =
     ex_analysis ((ex_build ''job'' 9 ''FAILURE'' [])\<lparr>console_log := Some ex_log\<rparr>) [''E''] ''HIGH''"

definition ex_state :: agent_state where
  "ex_state = \<lparr>analysis_cache = [], pattern_database = ex_store ''LOW'', action_history = [],
     learning_enabled = True, requests = []\<rparr>"

definition ex_dict_tests :: "pyobj list" where
  "ex_dict_tests =
     map (\<lambda>n. PyDict [(''name'', n), (''package'', ''pkg.A'')])
       [''pkg.A.t1'', ''pkg.A.t2'', ''pkg.A.t3'', ''pkg.A.t4'']"


section \<open>Properties of the failure learner\<close>

lemma db_get_update: "db_get (AList.update j ps db) j' = (if j' = j then ps else db_get db j')"
  by (simp add: db_get_def update_conv')

lemma db_get_init: "db_get (db_init j db) j' = db_get db j'"
  by (auto simp: db_get_def db_init_def update_conv')

lemma db_get_correlate:
  "db_get (correlate_failure_with_success e c now a db) j =
     (if j = job_name (build_info a) then db_get db j @ correlations e c now a else db_get db j)"
  by (cases "correlations e c now a")
     (simp_all add: correlate_failure_with_success_def Let_def db_get_update db_get_init)

lemma db_get_update_failure_patterns:
  "db_get (update_failure_patterns e c now a db) j =
     (if j = job_name (build_info a)
      then foldl (record_error_pattern now a) (db_get db j) (error_patterns a) @ correlations e c now a
      else db_get db j)"
  by (simp add: update_failure_patterns_def Let_def db_get_correlate db_get_update db_get_init)

lemma record_error_pattern_Nil: "record_error_pattern now a [] ep = [new_failure now a ep]"
  by (simp add: record_error_pattern_def)

lemma record_error_pattern_Cons:
  "record_error_pattern now a (p # ps) ep =
     (if is_failure_with (pattern_key ep) p then bump_failure now a p # ps
      else p # record_error_pattern now a ps ep)"
  by (simp add: record_error_pattern_def split: option.splits)

lemma is_failure_with_bump [simp]: "is_failure_with k (bump_failure now a p) = is_failure_with k p"
  by (simp add: is_failure_with_def bump_failure_def)

lemma is_failure_with_new [simp]: "is_failure_with k (new_failure now a ep) = (pattern_key ep = k)"
  by (simp add: is_failure_with_def new_failure_def plain_pattern_def)

lemma is_failure_with_same: "is_failure_with k p \<Longrightarrow> is_failure_with k' p \<Longrightarrow> k = k'"
  by (simp add: is_failure_with_def)

lemma find_record_error_pattern:
  "find (is_failure_with k) (record_error_pattern now a ps ep) =
     (if pattern_key ep = k
      then Some (case find (is_failure_with k) ps of
                   None \<Rightarrow> new_failure now a ep | Some p \<Rightarrow> bump_failure now a p)
      else find (is_failure_with k) ps)"
  by (induction ps)
     (auto simp: record_error_pattern_Nil record_error_pattern_Cons dest: is_failure_with_same)

lemma last_n_last_n: "last_n m (last_n m xs @ ys) = last_n m (xs @ ys)"
proof (cases "length xs \<le> m")
  case True
  then show ?thesis by (simp add: last_n_def)
next
  case False
  then have "length xs + length ys - (length xs - m + m) + (length xs - m) = length xs + length ys - m"
    by arith
  with False show ?thesis by (simp add: last_n_def)
qed

lemma find_first_find: "find P xs = map_option (\<lambda>i. xs ! i) (find_first P xs)"
  by (induction xs) (auto simp: option.map_comp comp_def)

lemma not_failure_correlations:
  "p \<in> set (correlations e c now a) \<Longrightarrow> \<not> is_failure_with k p"
  by (auto simp: correlations_def correlation_pattern_def plain_pattern_def is_failure_with_def Let_def
           split: option.splits if_splits)

lemma find_append_none: "(\<And>p. p \<in> set ys \<Longrightarrow> \<not> P p) \<Longrightarrow> find P (xs @ ys) = find P xs"
  by (induction xs) (auto simp: find_None_iff)

lemma filter_append_none: "(\<And>p. p \<in> set ys \<Longrightarrow> \<not> P p) \<Longrightarrow> filter P (xs @ ys) = filter P xs"
  by (induction xs) auto

lemma failure_record_step:
  "failure_record k (record_error_pattern now a ps ep) =
     (if pattern_key ep = k
      then Some (case failure_record k ps of
                   None \<Rightarrow> new_failure now a ep | Some p \<Rightarrow> bump_failure now a p)
      else failure_record k ps)"
  by (simp add: failure_record_def find_record_error_pattern)

lemma frequency_of_step:
  "frequency_of k (record_error_pattern now a ps ep) =
     frequency_of k ps + (if pattern_key ep = k then 1 else 0)"
  by (simp add: frequency_of_def failure_record_step bump_failure_def new_failure_def plain_pattern_def
           split: option.splits)

lemma contexts_of_step:
  "contexts_of k (record_error_pattern now a ps ep) =
     (if pattern_key ep = k then last_n 10 (contexts_of k ps @ [new_context a]) else contexts_of k ps)"
  by (simp add: contexts_of_def failure_record_step bump_failure_def new_failure_def plain_pattern_def
        last_n_def split: option.splits)

lemma frequency_of_foldl:
  "frequency_of k (foldl (record_error_pattern now a) ps eps) =
     frequency_of k ps + int (count_list (map pattern_key eps) k)"
  by (induction eps arbitrary: ps) (simp_all add: frequency_of_step)

lemma contexts_of_foldl:
  "contexts_of k (foldl (record_error_pattern now a) ps eps) =
     (if count_list (map pattern_key eps) k = 0 then contexts_of k ps
      else last_n 10 (contexts_of k ps @ replicate (count_list (map pattern_key eps) k) (new_context a)))"
proof (induction eps arbitrary: ps)
  case Nil
  then show ?case by simp
next
  case (Cons ep eps)
  show ?case
  proof (cases "pattern_key ep = k")
    case True
    then show ?thesis
      by (simp add: Cons contexts_of_step last_n_last_n replicate_append_same)
  next
    case False
    then show ?thesis by (simp add: Cons contexts_of_step)
  qed
qed

lemma count_step:
  "length (filter (is_failure_with k) (record_error_pattern now a ps ep)) =
     (if pattern_key ep = k then max 1 (length (filter (is_failure_with k) ps))
      else length (filter (is_failure_with k) ps))"
  by (induction ps)
     (auto simp: record_error_pattern_Nil record_error_pattern_Cons dest: is_failure_with_same)

lemma count_foldl:
  "length (filter (is_failure_with k) (foldl (record_error_pattern now a) ps eps)) =
     (if count_list (map pattern_key eps) k = 0 then length (filter (is_failure_with k) ps)
      else max 1 (length (filter (is_failure_with k) ps)))"
  by (induction eps arbitrary: ps) (auto simp: count_step)

lemma frequency_of_update:
  "frequency_of k (db_get (update_failure_patterns e c now a db) job) =
     frequency_of k (db_get db job)
       + (if job = job_name (build_info a) then int (occurrences k a) else 0)"
  by (simp add: db_get_update_failure_patterns frequency_of_def failure_record_def
        find_append_none not_failure_correlations occurrences_def
        frequency_of_foldl [unfolded frequency_of_def failure_record_def])

lemma contexts_of_update:
  "contexts_of k (db_get (update_failure_patterns e c now a db) job) =
     (if job = job_name (build_info a) \<and> occurrences k a \<noteq> 0
      then last_n 10 (contexts_of k (db_get db job) @ replicate (occurrences k a) (new_context a))
      else contexts_of k (db_get db job))"
  by (simp add: db_get_update_failure_patterns contexts_of_def failure_record_def
        find_append_none not_failure_correlations occurrences_def
        contexts_of_foldl [unfolded contexts_of_def failure_record_def])

lemma count_update:
  "length (filter (is_failure_with k) (db_get (update_failure_patterns e c now a db) job)) =
     (if job = job_name (build_info a) \<and> occurrences k a \<noteq> 0
      then max 1 (length (filter (is_failure_with k) (db_get db job)))
      else length (filter (is_failure_with k) (db_get db job)))"
  by (simp add: db_get_update_failure_patterns filter_append_none not_failure_correlations
        occurrences_def count_foldl)

lemma contexts_of_record_failures:
  "contexts_of k (db_get (record_failures e calls db) job) =
     (if observed_contexts job k calls = [] then contexts_of k (db_get db job)
      else last_n 10 (contexts_of k (db_get db job) @ observed_contexts job k calls))"
proof (induction calls arbitrary: db)
  case Nil
  then show ?case by (simp add: record_failures_def observed_contexts_def)
next
  case (Cons call calls)
  obtain c now a where call: "call = (c, now, a)" by (cases call)
  have unfold: "record_failures e (call # calls) db =
      record_failures e calls (update_failure_patterns e c now a db)"
    by (simp add: record_failures_def call)
  have obs: "observed_contexts job k (call # calls) =
      (if job_name (build_info a) = job then replicate (occurrences k a) (new_context a) else [])
        @ observed_contexts job k calls"
    by (simp add: observed_contexts_def call)
  show ?case
    unfolding unfold obs Cons.IH contexts_of_update
    by (auto simp: last_n_last_n)
qed

text \<open>
  C1. For an existing Failure record, \<^verbatim>\<open>update_failure_patterns\<close> sets the severity
  to Python's \<^verbatim>\<open>max\<close> of the two severity strings, which compares them as
  strings: \<open>MEDIUM\<close> is above \<open>LOW\<close>, and \<open>LOW\<close> is above \<open>HIGH\<close>. A record created
  with severity \<open>HIGH\<close> and observed again with \<open>LOW\<close> ends at \<open>LOW\<close>; a record
  created with \<open>MEDIUM\<close> and observed again with \<open>HIGH\<close> stays at \<open>MEDIUM\<close>.
\<close>

theorem severity_max_is_lexicographic:
  "map p_severity (db_get (ex_store ''HIGH'') ''job'') = [Some ''HIGH'']
   \<and> map p_severity
         (db_get (update_failure_patterns ex_env [] 20 (ex_failing ''LOW'') (ex_store ''HIGH''))
            ''job'') = [Some ''LOW'']
   \<and> map p_severity (db_get (ex_store ''MEDIUM'') ''job'') = [Some ''MEDIUM'']
   \<and> map p_severity
         (db_get (update_failure_patterns ex_env [] 20 (ex_failing ''HIGH'') (ex_store ''MEDIUM''))
            ''job'') = [Some ''MEDIUM'']"
  by code_simp

lemma last_n_suffix: "xs = take (length xs - n) xs @ last_n n xs"
  by (simp add: last_n_def)

lemma length_last_n: "length (last_n n xs) = min n (length xs)"
  by (simp add: last_n_def)

text \<open>
  C7. Take any store and any sequence of calls of \<^verbatim>\<open>update_failure_patterns\<close>, and
  a job and a pattern key observed at least once in them. The history of the key is the
  former context list of its Failure record followed by the contexts observed, in the
  order of observation. Afterwards the context list of the record is an end piece of that
  history: the history is some dropped entries followed by the list. Its length is the
  smaller of ten and the length of the history, so it has at most ten entries, the most
  recent ones, and the oldest are the ones dropped.
\<close>

theorem contexts_bounded:
  "observed_contexts job k calls \<noteq> [] \<Longrightarrow>
     (\<exists>dropped. contexts_of k (db_get db job) @ observed_contexts job k calls =
        dropped @ contexts_of k (db_get (record_failures e calls db) job))
     \<and> length (contexts_of k (db_get (record_failures e calls db) job)) =
         min 10 (length (contexts_of k (db_get db job) @ observed_contexts job k calls))
     \<and> length (contexts_of k (db_get (record_failures e calls db) job)) \<le> 10"
proof -
  assume obs: "observed_contexts job k calls \<noteq> []"
  let ?history = "contexts_of k (db_get db job) @ observed_contexts job k calls"
  have kept: "contexts_of k (db_get (record_failures e calls db) job) = last_n 10 ?history"
    using obs by (simp add: contexts_of_record_failures)
  have "?history = take (length ?history - 10) ?history
      @ contexts_of k (db_get (record_failures e calls db) job)"
    unfolding kept by (rule last_n_suffix)
  then have "\<exists>dropped. ?history = dropped @ contexts_of k (db_get (record_failures e calls db) job)"
    by (rule exI)
  moreover have "length (contexts_of k (db_get (record_failures e calls db) job)) =
      min 10 (length ?history)"
    unfolding kept by (rule length_last_n)
  ultimately show ?thesis by simp
qed

theorem contexts_bounded_witness:
  "observed_contexts ''job'' ''E'' ex_calls \<noteq> []
   \<and> map c_build_number (contexts_of ''E'' (db_get [] ''job'') @ observed_contexts ''job'' ''E'' ex_calls)
       = [1, 2, 3, 4, 5, 6, 7, 8, 9, 10, 11, 12]
   \<and> map c_build_number (contexts_of ''E'' (db_get (record_failures ex_env ex_calls []) ''job''))
       = [3, 4, 5, 6, 7, 8, 9, 10, 11, 12]
   \<and> (\<exists>dropped. contexts_of ''E'' (db_get [] ''job'') @ observed_contexts ''job'' ''E'' ex_calls =
        dropped @ contexts_of ''E'' (db_get (record_failures ex_env ex_calls []) ''job''))
   \<and> length (contexts_of ''E'' (db_get (record_failures ex_env ex_calls []) ''job'')) \<le> 10"
proof -
  have h: "observed_contexts ''job'' ''E'' ex_calls \<noteq> []"
    by code_simp
  have before: "map c_build_number
      (contexts_of ''E'' (db_get [] ''job'') @ observed_contexts ''job'' ''E'' ex_calls)
       = [1, 2, 3, 4, 5, 6, 7, 8, 9, 10, 11, 12]"
    by code_simp
  have after: "map c_build_number
      (contexts_of ''E'' (db_get (record_failures ex_env ex_calls []) ''job''))
       = [3, 4, 5, 6, 7, 8, 9, 10, 11, 12]"
    by code_simp
  from contexts_bounded [OF h, of "[]" ex_env]
  have suffix: "\<exists>dropped. contexts_of ''E'' (db_get [] ''job'') @ observed_contexts ''job'' ''E'' ex_calls =
        dropped @ contexts_of ''E'' (db_get (record_failures ex_env ex_calls []) ''job'')"
    and bound: "length (contexts_of ''E'' (db_get (record_failures ex_env ex_calls []) ''job'')) \<le> 10"
    by blast+
  from h before after suffix bound show ?thesis
    by (intro conjI)
qed

text \<open>
  C8, as stated: two calls with the same analysis raise the frequency by two. It fails
  for an analysis that lists the key twice: the record of \<open>E\<close>, of frequency 1, ends at 5.
\<close>

theorem frequency_plus_two_counterexample:
  "frequency_of ''E''
     (db_get (update_failure_patterns ex_env [] 30 (ex_doubled 8)
                (update_failure_patterns ex_env [] 20 (ex_doubled 8) (ex_store ''LOW''))) ''job'')
   \<noteq> frequency_of ''E'' (db_get (ex_store ''LOW'') ''job'') + 2"
  by code_simp

text \<open>
  C8, amended. Two calls of \<^verbatim>\<open>update_failure_patterns\<close> with the same analysis raise
  the frequency of a key's Failure record (0 when there is none) by twice the number of
  entries of \<^verbatim>\<open>error_patterns\<close> that carry the key, so by exactly 2 when the key is
  listed once; and when the key is listed, the number of Failure records of that key
  stays what it was, or becomes one if there was none.
\<close>

theorem record_failure_twice:
  "frequency_of k
     (db_get (update_failure_patterns e c2 t2 a (update_failure_patterns e c1 t1 a db))
        (job_name (build_info a))) =
   frequency_of k (db_get db (job_name (build_info a))) + 2 * int (occurrences k a)
   \<and> (occurrences k a \<noteq> 0 \<longrightarrow>
        length (filter (is_failure_with k)
          (db_get (update_failure_patterns e c2 t2 a (update_failure_patterns e c1 t1 a db))
             (job_name (build_info a)))) =
        max 1 (length (filter (is_failure_with k) (db_get db (job_name (build_info a))))))"
  by (simp add: frequency_of_update count_update)

theorem record_failure_twice_witness:
  "occurrences ''E'' (ex_failing ''LOW'') = 1
   \<and> frequency_of ''E''
        (db_get (update_failure_patterns ex_env [] 30 (ex_failing ''LOW'')
                   (update_failure_patterns ex_env [] 20 (ex_failing ''LOW'') (ex_store ''LOW'')))
           ''job'') =
      frequency_of ''E'' (db_get (ex_store ''LOW'') ''job'') + 2
   \<and> length (filter (is_failure_with ''E'')
        (db_get (update_failure_patterns ex_env [] 30 (ex_failing ''LOW'')
                   (update_failure_patterns ex_env [] 20 (ex_failing ''LOW'') (ex_store ''LOW'')))
           ''job'')) = 1"
proof -
  have occ: "occurrences ''E'' (ex_failing ''LOW'') = 1"
    by code_simp
  have job: "job_name (build_info (ex_failing ''LOW'')) = ''job''"
    by code_simp
  have before: "length (filter (is_failure_with ''E'') (db_get (ex_store ''LOW'') ''job'')) = 1"
    by code_simp
  show ?thesis
    using record_failure_twice [of "''E''" ex_env "[]" 30 "ex_failing ''LOW''" "[]" 20 "ex_store ''LOW''"]
    by (simp add: occ job before)
qed

section \<open>Properties of pruning and matching\<close>


lemma any_pattern_equal_total:
  "\<forall>ep\<in>set eps. ep_pattern ep \<noteq> None \<Longrightarrow>
     any_pattern_equal s eps = Inr (s \<in> set (map pattern_key eps))"
  by (induction eps) (auto simp: pattern_key_def)

lemma any_pattern_equal_Inr:
  "any_pattern_equal s eps = Inr b \<Longrightarrow> b = (s \<in> set (map pattern_key eps))"
  by (induction eps) (auto simp: pattern_key_def split: option.splits if_splits)

lemma collect_matches_Inr:
  "collect_matches a ms ps = Inr r \<Longrightarrow>
     r = ms @ filter (\<lambda>p. p_pattern p \<in> set (map pattern_key (error_patterns a))) ps"
proof (induction ps arbitrary: ms)
  case Nil
  then show ?case by simp
next
  case (Cons p ps)
  from Cons.prems obtain b where b: "pattern_matches p a = Inr b"
    and rest: "collect_matches a (if b then ms @ [p] else ms) ps = Inr r"
    by (auto split: sum.splits)
  from b have "b = (p_pattern p \<in> set (map pattern_key (error_patterns a)))"
    unfolding pattern_matches_def by (rule any_pattern_equal_Inr)
  with Cons.IH [OF rest] show ?case by simp
qed

lemma collect_matches_total:
  "\<forall>ep\<in>set (error_patterns a). ep_pattern ep \<noteq> None \<Longrightarrow>
     collect_matches a ms ps =
       Inr (ms @ filter (\<lambda>p. p_pattern p \<in> set (map pattern_key (error_patterns a))) ps)"
  by (induction ps arbitrary: ms) (auto simp: pattern_matches_def any_pattern_equal_total)

text \<open>
  C3. \<^verbatim>\<open>cleanup_patterns\<close> keeps a record only while its age is below 30 days: a
  record whose \<^verbatim>\<open>last_seen\<close> is exactly 30 days before \<^verbatim>\<open>now\<close> is removed, and
  one a microsecond younger is kept.
\<close>

theorem prune_removes_at_thirty_days:
  "timedelta_days 30 - p_last_seen (plain_pattern ''E'' 3 0 None) = timedelta_days 30
   \<and> db_get (cleanup_patterns (timedelta_days 30) [(''job'', [plain_pattern ''E'' 3 0 None])])
         ''job'' = []
   \<and> db_get (cleanup_patterns (timedelta_days 30 - 1) [(''job'', [plain_pattern ''E'' 3 0 None])])
         ''job'' = [plain_pattern ''E'' 3 0 None]"
  by code_simp

text \<open>
  C5, as stated: Success records are never returned. After a successful build the store
  holds a Success record with key \<open>timing_normal\<close>, and an analysis whose error pattern
  is that text gets it back.
\<close>

theorem match_returns_success_counterexample:
  "map_sum id (map p_type) (match_known_patterns ex_learned ex_timing) = Inr [Some ''success'']"
  by code_simp

text \<open>
  C5, amended. \<^verbatim>\<open>match_known_patterns\<close> returns the records of the analysis's job, of
  any type and in the order of the store, whose key is equal to the pattern of some entry
  of \<^verbatim>\<open>error_patterns\<close>: whatever it returns is that list, and it does return when
  every entry has a \<^verbatim>\<open>pattern\<close> key.
\<close>

theorem match_returns_equal_keys:
  "(\<forall>ms. match_known_patterns db a = Inr ms \<longrightarrow>
       ms = filter (\<lambda>p. p_pattern p \<in> set (map pattern_key (error_patterns a)))
              (db_get db (job_name (build_info a))))
   \<and> ((\<forall>ep\<in>set (error_patterns a). ep_pattern ep \<noteq> None) \<longrightarrow>
        match_known_patterns db a =
          Inr (filter (\<lambda>p. p_pattern p \<in> set (map pattern_key (error_patterns a)))
                 (db_get db (job_name (build_info a)))))"
proof (intro conjI allI impI)
  fix ms
  assume "match_known_patterns db a = Inr ms"
  then have "collect_matches a [] (db_get db (job_name (build_info a))) = Inr ms"
    by (simp add: match_known_patterns_def)
  from collect_matches_Inr [OF this]
  show "ms = filter (\<lambda>p. p_pattern p \<in> set (map pattern_key (error_patterns a)))
              (db_get db (job_name (build_info a)))"
    by simp
next
  assume "\<forall>ep\<in>set (error_patterns a). ep_pattern ep \<noteq> None"
  from collect_matches_total [OF this, of "[]"]
  show "match_known_patterns db a =
          Inr (filter (\<lambda>p. p_pattern p \<in> set (map pattern_key (error_patterns a)))
                 (db_get db (job_name (build_info a))))"
    by (simp add: match_known_patterns_def)
qed

theorem match_returns_equal_keys_witness:
  "map ep_pattern (error_patterns ex_timing) = [Some ''timing_normal'']
   \<and> match_known_patterns ex_learned ex_timing =
       Inr (filter (\<lambda>p. p_pattern p \<in> set (map pattern_key (error_patterns ex_timing)))
              (db_get ex_learned (job_name (build_info ex_timing))))"
proof -
  have eps: "map ep_pattern (error_patterns ex_timing) = [Some ''timing_normal'']"
    by code_simp
  then have h: "\<forall>ep\<in>set (error_patterns ex_timing). ep_pattern ep \<noteq> None"
    by (cases "error_patterns ex_timing") auto
  with match_returns_equal_keys [of ex_learned ex_timing] eps show ?thesis
    by blast
qed

section \<open>Properties of the batch extraction\<close>

lemma count_errors_tally:
  "\<forall>ep\<in>set eps. ep_pattern ep \<noteq> None \<Longrightarrow>
     count_errors counts eps = Inr (tally counts (map pattern_key eps))"
  by (induction eps arbitrary: counts) (auto simp: tally_def pattern_key_def)

lemma tally_append: "tally counts (ks @ ks') = tally (tally counts ks) ks'"
  by (simp add: tally_def)

lemma count_analyses_tally:
  "\<forall>a\<in>set analyses. \<forall>ep\<in>set (error_patterns a). ep_pattern ep \<noteq> None \<Longrightarrow>
     count_analyses counts analyses =
       Inr (tally counts (concat (map (\<lambda>a. map pattern_key (error_patterns a)) analyses)))"
proof (induction analyses arbitrary: counts)
  case Nil
  then show ?case by (simp add: tally_def)
next
  case (Cons a analyses)
  then show ?case by (simp add: count_errors_tally tally_append)
qed

lemma distinct_tally: "distinct (map fst counts) \<Longrightarrow> distinct (map fst (tally counts ks))"
  by (induction ks arbitrary: counts) (simp_all add: tally_def distinct_update)

lemma map_of_tally:
  "map_of (tally counts ks) k =
     (if map_of counts k = None \<and> k \<notin> set ks then None
      else Some ((case map_of counts k of None \<Rightarrow> 0 | Some n \<Rightarrow> n) + int (count_list ks k)))"
proof (induction ks arbitrary: counts)
  case Nil
  then show ?case by (auto simp: tally_def)
next
  case (Cons x ks)
  have step: "tally counts (x # ks) =
      tally (AList.update x ((case map_of counts x of None \<Rightarrow> 0 | Some n \<Rightarrow> n) + 1) counts) ks"
    by (simp add: tally_def)
  show ?case
    unfolding step Cons.IH
    by (auto simp: update_conv' split: option.splits)
qed

lemma filter_key_distinct:
  "distinct (map fst xs) \<Longrightarrow>
     filter (\<lambda>(k, v). k = s) xs = (case map_of xs s of None \<Rightarrow> [] | Some v \<Rightarrow> [(s, v)])"
proof (induction xs)
  case Nil
  then show ?case by simp
next
  case (Cons x xs)
  obtain k v where x: "x = (k, v)" by (cases x)
  show ?case
  proof (cases "k = s")
    case True
    with Cons.prems x have "s \<notin> fst ` set xs" by auto
    then have "filter (\<lambda>(k, v). k = s) xs = []"
      by (force simp: filter_empty_conv)
    with True x show ?thesis by simp
  next
    case False
    with Cons x show ?thesis by simp
  qed
qed

lemma filter_promoted:
  "filter (\<lambda>p. p_pattern p = s)
     (map (\<lambda>(pattern, count). plain_pattern pattern count now (sol pattern)) (filter Q xs)) =
   map (\<lambda>(pattern, count). plain_pattern pattern count now (sol pattern))
     (filter Q (filter (\<lambda>(k, v). k = s) xs))"
  by (induction xs) (auto simp: plain_pattern_def)

lemma count_list_concat:
  "count_list (concat (map (\<lambda>a. map pattern_key (error_patterns a)) analyses)) k =
     batch_occurrences k analyses"
  by (induction analyses) (simp_all add: batch_occurrences_def occurrences_def)

lemma extract_patterns_promoted:
  assumes "\<forall>a\<in>set analyses. \<forall>ep\<in>set (error_patterns a). ep_pattern ep \<noteq> None"
  shows "\<exists>ps. extract_patterns now analyses = Inr ps
     \<and> filter (\<lambda>p. p_pattern p = s) ps =
         (if 3 \<le> batch_occurrences s analyses
          then [plain_pattern s (int (batch_occurrences s analyses)) now None] else [])"
proof -
  let ?ks = "concat (map (\<lambda>a. map pattern_key (error_patterns a)) analyses)"
  let ?counts = "tally [] ?ks"
  let ?mk = "\<lambda>(pattern, count). plain_pattern pattern count now (derive_solution pattern analyses)"
  have counts: "count_analyses [] analyses = Inr ?counts"
    using assms by (rule count_analyses_tally)
  have dist: "distinct (map fst ?counts)"
    by (rule distinct_tally) simp
  have look: "map_of ?counts s =
      (if s \<notin> set ?ks then None else Some (int (batch_occurrences s analyses)))"
    by (simp add: map_of_tally count_list_concat)
  have zero: "s \<notin> set ?ks \<Longrightarrow> batch_occurrences s analyses = 0"
    unfolding count_list_concat [symmetric] by (simp add: count_list_0_iff)
  have sel: "filter (\<lambda>p. p_pattern p = s) (map ?mk (filter (\<lambda>(pattern, count). count \<ge> 3) ?counts))
      = map ?mk (filter (\<lambda>(pattern, count). count \<ge> 3) (filter (\<lambda>(k, v). k = s) ?counts))"
    by (rule filter_promoted)
  have picked: "filter (\<lambda>(pattern, count). count \<ge> 3) (filter (\<lambda>(k, v). k = s) ?counts) =
      (if 3 \<le> batch_occurrences s analyses then [(s, int (batch_occurrences s analyses))] else [])"
    using zero by (auto simp: filter_key_distinct [OF dist] look)
  have "extract_patterns now analyses =
      Inr (map ?mk (filter (\<lambda>(pattern, count). count \<ge> 3) ?counts))"
    by (simp add: extract_patterns_def counts)
  moreover have "filter (\<lambda>p. p_pattern p = s)
      (map ?mk (filter (\<lambda>(pattern, count). count \<ge> 3) ?counts)) =
      (if 3 \<le> batch_occurrences s analyses
       then [plain_pattern s (int (batch_occurrences s analyses)) now None] else [])"
    unfolding sel picked by (simp add: derive_solution_def)
  ultimately show ?thesis by simp
qed

text \<open>
  C9. \<^verbatim>\<open>extract_patterns\<close> counts entries, not builds. Three analyses that each list
  \<open>E\<close> twice give one promoted pattern of frequency 6, and two such analyses already
  promote it, with frequency 4.
\<close>

theorem extraction_counts_entries:
  "extract_patterns 50 [ex_doubled 1, ex_doubled 2, ex_doubled 3] =
     Inr [plain_pattern ''E'' 6 50 None]
   \<and> extract_patterns 50 [ex_doubled 1, ex_doubled 2] = Inr [plain_pattern ''E'' 4 50 None]"
  by code_simp

section \<open>Properties of the correlation\<close>

lemma compare_key_fst: "x \<in> set (compare_key cur succ k) \<Longrightarrow> fst x = k"
  by (auto simp: compare_key_def split: option.splits if_splits)

lemma compare_key_Changed:
  "(k', Changed old new) \<in> set (compare_key cur succ k) \<longleftrightarrow>
     k' = k \<and> map_of cur k = Some new \<and> map_of succ k = Some old \<and> new \<noteq> old"
  by (auto simp: compare_key_def split: option.splits if_splits)

lemma keys_compare_key:
  "map fst (concat (map (compare_key cur succ) ks)) =
     filter (\<lambda>k. compare_key cur succ k \<noteq> []) ks"
  by (induction ks) (auto simp: compare_key_def split: option.splits)

lemma distinct_compare_build_parameters:
  "distinct (map fst (compare_build_parameters cur succ))"
  by (simp add: compare_build_parameters_def keys_compare_key)

lemma Changed_in_compare_build_parameters:
  "(k, Changed old new) \<in> set (compare_build_parameters cur succ) \<longleftrightarrow>
     map_of cur k = Some new \<and> map_of succ k = Some old \<and> new \<noteq> old"
proof -
  have "map_of cur k = Some new \<Longrightarrow> k \<in> fst ` set cur"
    by (metis map_of_eq_None_iff option.distinct(1))
  then show ?thesis
    by (auto simp: compare_build_parameters_def compare_key_Changed)
qed

lemma revert_entry_iff:
  "(k, v) \<in> set (revert_entry x) \<longleftrightarrow> (\<exists>new. x = (k, Changed v new))"
  by (cases x rule: revert_entry.cases) auto

lemma in_revert_parameters:
  "(k, v) \<in> set (revert_parameters param_diff) \<longleftrightarrow> (\<exists>new. (k, Changed v new) \<in> set param_diff)"
  by (auto simp: revert_parameters_def revert_entry_iff)

lemma keys_revert_parameters:
  "map fst (revert_parameters param_diff) =
     map fst (filter (\<lambda>x. \<exists>old new. snd x = Changed old new) param_diff)"
proof (induction param_diff)
  case Nil
  then show ?case by (simp add: revert_parameters_def)
next
  case (Cons x xs)
  then show ?case
    by (cases x rule: revert_entry.cases) (simp_all add: revert_parameters_def)
qed

lemma distinct_revert_parameters:
  "distinct (map fst param_diff) \<Longrightarrow> distinct (map fst (revert_parameters param_diff))"
  unfolding keys_revert_parameters by (rule distinct_map_filter)

lemma max_by_build_number_mem: "max_by_build_number m xs \<in> set (m # xs)"
  by (induction xs arbitrary: m) auto

lemma max_by_build_number_ge:
  "x \<in> set (m # xs) \<Longrightarrow>
     build_number (build_info x) \<le> build_number (build_info (max_by_build_number m xs))"
proof (induction xs arbitrary: m x)
  case Nil
  then show ?case by simp
next
  case (Cons y ys)
  let ?m' = "if build_number (build_info m) < build_number (build_info y) then y else m"
  have top: "build_number (build_info ?m') \<le> build_number (build_info (max_by_build_number ?m' ys))"
    by (rule Cons.IH) simp
  from Cons.prems consider "x = m" | "x = y" | "x \<in> set ys" by auto
  then show ?case
  proof cases
    case 1
    have "build_number (build_info m) \<le> build_number (build_info ?m')" by simp
    with top 1 show ?thesis by simp
  next
    case 2
    have "build_number (build_info y) \<le> build_number (build_info ?m')" by simp
    with top 2 show ?thesis by simp
  next
    case 3
    then have "x \<in> set (?m' # ys)" by simp
    from Cons.IH [OF this] show ?thesis by simp
  qed
qed

lemma startswith_take: "startswith s p \<longleftrightarrow> take (length p) s = p"
  by (induction s p rule: startswith.induct) auto

lemma compare_key_empty:
  "compare_key cur succ k = [] \<longleftrightarrow> map_of cur k = map_of succ k"
  by (auto simp: compare_key_def split: option.splits)

lemma compare_build_parameters_empty:
  "compare_build_parameters cur succ = [] \<longleftrightarrow> map_of cur = map_of succ"
proof
  assume "compare_build_parameters cur succ = []"
  then have keys: "\<forall>k\<in>set (map fst cur) \<union> set (map fst succ). map_of cur k = map_of succ k"
    by (simp add: compare_build_parameters_def compare_key_empty)
  show "map_of cur = map_of succ"
  proof
    fix k
    show "map_of cur k = map_of succ k"
    proof (cases "k \<in> set (map fst cur) \<union> set (map fst succ)")
      case True
      with keys show ?thesis by blast
    next
      case False
      then have "map_of cur k = None" "map_of succ k = None"
        by (simp_all add: map_of_eq_None_iff)
      then show ?thesis by simp
    qed
  qed
next
  assume "map_of cur = map_of succ"
  then show "compare_build_parameters cur succ = []"
    by (simp add: compare_build_parameters_def compare_key_empty)
qed

lemma in_successful_analyses:
  "x \<in> set (successful_analyses c a) \<longleftrightarrow>
     (\<exists>key. (key, x) \<in> set c
        \<and> take (length (job_name (build_info a) @ ''#'')) key = job_name (build_info a) @ ''#''
        \<and> result (build_info x) = ''SUCCESS''
        \<and> build_number (build_info x) < build_number (build_info a))"
  by (force simp: successful_analyses_def startswith_take)

lemma latest_success_is:
  assumes cached: "(key, l) \<in> set c"
    and job: "take (length (job_name (build_info a) @ ''#'')) key = job_name (build_info a) @ ''#''"
    and ok: "result (build_info l) = ''SUCCESS''"
    and prior: "build_number (build_info l) < build_number (build_info a)"
    and highest: "\<forall>(key', x)\<in>set c.
        take (length (job_name (build_info a) @ ''#'')) key' = job_name (build_info a) @ ''#''
        \<and> result (build_info x) = ''SUCCESS''
        \<and> build_number (build_info x) < build_number (build_info a)
        \<longrightarrow> x = l \<or> build_number (build_info x) < build_number (build_info l)"
  shows "latest_success c a = Some l"
proof -
  have l: "l \<in> set (successful_analyses c a)"
    unfolding in_successful_analyses using cached job ok prior by blast
  then obtain s ss where split: "successful_analyses c a = s # ss"
    by (cases "successful_analyses c a") auto
  let ?m = "max_by_build_number s ss"
  have "?m \<in> set (successful_analyses c a)"
    unfolding split by (rule max_by_build_number_mem)
  then obtain key' where m: "(key', ?m) \<in> set c"
      "take (length (job_name (build_info a) @ ''#'')) key' = job_name (build_info a) @ ''#''"
      "result (build_info ?m) = ''SUCCESS''"
      "build_number (build_info ?m) < build_number (build_info a)"
    unfolding in_successful_analyses by blast
  from highest m have "?m = l \<or> build_number (build_info ?m) < build_number (build_info l)"
    by blast
  moreover have "build_number (build_info l) \<le> build_number (build_info ?m)"
    using l unfolding split by (rule max_by_build_number_ge)
  ultimately have "?m = l" by auto
  then show ?thesis by (simp add: latest_success_def split)
qed

lemma job_of_cache_key:
  assumes "take (length (ja @ ''#'')) (cache_key jl n) = ja @ ''#''"
    and "CHR ''#'' \<notin> set jl" and "CHR ''#'' \<notin> set ja"
  shows "jl = ja"
proof -
  from assms(1) have "cache_key jl n = (ja @ ''#'') @ drop (length (ja @ ''#'')) (cache_key jl n)"
    by (metis append_take_drop_id)
  then have eq: "jl @ CHR ''#'' # str_int n = ja @ CHR ''#'' # drop (length (ja @ ''#'')) (cache_key jl n)"
    by (simp add: cache_key_def)
  have "takeWhile (\<lambda>ch. ch \<noteq> CHR ''#'') (jl @ CHR ''#'' # str_int n) = jl"
    using assms(2) by (auto simp: takeWhile_tail)
  moreover have "takeWhile (\<lambda>ch. ch \<noteq> CHR ''#'')
      (ja @ CHR ''#'' # drop (length (ja @ ''#'')) (cache_key jl n)) = ja"
    using assms(3) by (auto simp: takeWhile_tail)
  ultimately show ?thesis using eq by simp
qed

text \<open>
  C6. Let \<open>l\<close> be an analysis in the cache under a key that starts with the failing
  build's job name and \<open>#\<close> (the keys of that job's builds), with result \<open>SUCCESS\<close> and
  a lower build number than the failing build, and let every other such cached analysis
  have a lower build number than \<open>l\<close>; let the two parameter dictionaries differ.
  Then \<^verbatim>\<open>_correlate_failure_with_success\<close> appends exactly one record to the job's
  collection. It is a Correlation record naming the build of \<open>l\<close> as the successful
  build, and the parameter map of its solution has exactly the keys present in both
  builds with different values, each with its value in \<open>l\<close>; keys equal in both, only
  added or only removed are absent. When the key of \<open>l\<close> is its own build key and no job
  name contains \<open>#\<close>, \<open>l\<close> is a build of the same job.
\<close>

theorem correlation_reverts_changed:
  assumes cached: "(key, l) \<in> set c"
    and job: "take (length (job_name (build_info a) @ ''#'')) key = job_name (build_info a) @ ''#''"
    and ok: "result (build_info l) = ''SUCCESS''"
    and prior: "build_number (build_info l) < build_number (build_info a)"
    and highest: "\<forall>(key', x)\<in>set c.
        take (length (job_name (build_info a) @ ''#'')) key' = job_name (build_info a) @ ''#''
        \<and> result (build_info x) = ''SUCCESS''
        \<and> build_number (build_info x) < build_number (build_info a)
        \<longrightarrow> x = l \<or> build_number (build_info x) < build_number (build_info l)"
    and differ: "map_of (parameters (build_info a)) \<noteq> map_of (parameters (build_info l))"
  shows "(\<exists>r. db_get (correlate_failure_with_success e c now a db) (job_name (build_info a)) =
              db_get db (job_name (build_info a)) @ [r]
            \<and> p_type r = Some ''correlation''
            \<and> p_success_build r = Some (build_number (build_info l))
            \<and> p_failure_build r = Some (build_number (build_info a))
            \<and> distinct (map fst (solution_parameters r))
            \<and> (\<forall>k v. map_of (solution_parameters r) k = Some v \<longleftrightarrow>
                  (\<exists>new. map_of (parameters (build_info a)) k = Some new
                     \<and> map_of (parameters (build_info l)) k = Some v \<and> new \<noteq> v)))
     \<and> (key = cache_key (job_name (build_info l)) (build_number (build_info l))
          \<and> CHR ''#'' \<notin> set (job_name (build_info l))
          \<and> CHR ''#'' \<notin> set (job_name (build_info a))
        \<longrightarrow> job_name (build_info l) = job_name (build_info a))"
proof (rule conjI)
  let ?diff = "compare_build_parameters (parameters (build_info a)) (parameters (build_info l))"
  let ?r = "correlation_pattern e now a l ?diff"
  have latest: "latest_success c a = Some l"
    using cached job ok prior highest by (rule latest_success_is)
  have nonempty: "?diff \<noteq> []"
    using differ by (simp add: compare_build_parameters_empty)
  have cs: "correlations e c now a = [?r]"
    using latest nonempty by (simp add: correlations_def Let_def)
  have sp: "solution_parameters ?r = revert_parameters ?diff"
    by (simp add: solution_parameters_def correlation_pattern_def plain_pattern_def empty_solution_def)
  have dist: "distinct (map fst (solution_parameters ?r))"
    unfolding sp by (intro distinct_revert_parameters distinct_compare_build_parameters)
  have look: "\<forall>k v. map_of (solution_parameters ?r) k = Some v \<longleftrightarrow>
      (\<exists>new. map_of (parameters (build_info a)) k = Some new
         \<and> map_of (parameters (build_info l)) k = Some v \<and> new \<noteq> v)"
    using dist by (simp add: sp in_revert_parameters Changed_in_compare_build_parameters)
  have appended: "db_get (correlate_failure_with_success e c now a db) (job_name (build_info a)) =
      db_get db (job_name (build_info a)) @ [?r]"
    by (simp add: db_get_correlate cs)
  have tags: "p_type ?r = Some ''correlation''"
    "p_success_build ?r = Some (build_number (build_info l))"
    "p_failure_build ?r = Some (build_number (build_info a))"
    by (simp_all add: correlation_pattern_def plain_pattern_def)
  show "\<exists>r. db_get (correlate_failure_with_success e c now a db) (job_name (build_info a)) =
              db_get db (job_name (build_info a)) @ [r]
            \<and> p_type r = Some ''correlation''
            \<and> p_success_build r = Some (build_number (build_info l))
            \<and> p_failure_build r = Some (build_number (build_info a))
            \<and> distinct (map fst (solution_parameters r))
            \<and> (\<forall>k v. map_of (solution_parameters r) k = Some v \<longleftrightarrow>
                  (\<exists>new. map_of (parameters (build_info a)) k = Some new
                     \<and> map_of (parameters (build_info l)) k = Some v \<and> new \<noteq> v))"
    by (rule exI [of _ ?r]) (intro conjI appended tags dist look)
next
  show "key = cache_key (job_name (build_info l)) (build_number (build_info l))
          \<and> CHR ''#'' \<notin> set (job_name (build_info l))
          \<and> CHR ''#'' \<notin> set (job_name (build_info a))
        \<longrightarrow> job_name (build_info l) = job_name (build_info a)"
  proof (intro impI, elim conjE)
    assume k: "key = cache_key (job_name (build_info l)) (build_number (build_info l))"
      and nl: "CHR ''#'' \<notin> set (job_name (build_info l))"
      and na: "CHR ''#'' \<notin> set (job_name (build_info a))"
    from job_of_cache_key [OF job [unfolded k] nl na]
    show "job_name (build_info l) = job_name (build_info a)" .
  qed
qed

theorem correlation_reverts_changed_witness:
  "(cache_key ''job'' 3, ex_prod) \<in> set ex_cache
   \<and> job_name (build_info ex_prod) = job_name (build_info ex_staging)
   \<and> result (build_info ex_prod) = ''SUCCESS''
   \<and> build_number (build_info ex_prod) < build_number (build_info ex_staging)
   \<and> map_of (parameters (build_info ex_staging)) \<noteq> map_of (parameters (build_info ex_prod))
   \<and> map p_success_build
        (db_get (correlate_failure_with_success ex_env ex_cache 50 ex_staging []) ''job'') = [Some 3]
   \<and> map solution_parameters
        (db_get (correlate_failure_with_success ex_env ex_cache 50 ex_staging []) ''job'')
       = [[(''env'', ''prod'')]]
   \<and> (\<exists>r. db_get (correlate_failure_with_success ex_env ex_cache 50 ex_staging [])
               (job_name (build_info ex_staging)) =
              db_get [] (job_name (build_info ex_staging)) @ [r]
            \<and> p_type r = Some ''correlation''
            \<and> p_success_build r = Some (build_number (build_info ex_prod)))"
proof -
  have cached: "(cache_key ''job'' 3, ex_prod) \<in> set ex_cache"
    by (simp add: ex_cache_def)
  have job: "take (length (job_name (build_info ex_staging) @ ''#'')) (cache_key ''job'' 3) =
      job_name (build_info ex_staging) @ ''#''"
    by code_simp
  have same: "job_name (build_info ex_prod) = job_name (build_info ex_staging)"
    by code_simp
  have ok: "result (build_info ex_prod) = ''SUCCESS''"
    by code_simp
  have prior: "build_number (build_info ex_prod) < build_number (build_info ex_staging)"
    by code_simp
  have highest: "\<forall>(key', x)\<in>set ex_cache.
      take (length (job_name (build_info ex_staging) @ ''#'')) key' =
        job_name (build_info ex_staging) @ ''#''
      \<and> result (build_info x) = ''SUCCESS''
      \<and> build_number (build_info x) < build_number (build_info ex_staging)
      \<longrightarrow> x = ex_prod \<or> build_number (build_info x) < build_number (build_info ex_prod)"
    by code_simp
  have "map_of (parameters (build_info ex_staging)) ''env''
      \<noteq> map_of (parameters (build_info ex_prod)) ''env''"
    by code_simp
  then have differ: "map_of (parameters (build_info ex_staging))
      \<noteq> map_of (parameters (build_info ex_prod))"
    by metis
  have picked: "map p_success_build
      (db_get (correlate_failure_with_success ex_env ex_cache 50 ex_staging []) ''job'') = [Some 3]"
    by code_simp
  have sol: "map solution_parameters
      (db_get (correlate_failure_with_success ex_env ex_cache 50 ex_staging []) ''job'')
       = [[(''env'', ''prod'')]]"
    by code_simp
  from correlation_reverts_changed [OF cached job ok prior highest differ, of ex_env 50 "[]"]
  have "\<exists>r. db_get (correlate_failure_with_success ex_env ex_cache 50 ex_staging [])
               (job_name (build_info ex_staging)) =
              db_get [] (job_name (build_info ex_staging)) @ [r]
            \<and> p_type r = Some ''correlation''
            \<and> p_success_build r = Some (build_number (build_info ex_prod))"
    by blast
  with cached same ok prior differ picked sol show ?thesis
    by (intro conjI)
qed

section \<open>Properties of the store as a whole\<close>


lemma has_type_bump_failure [simp]: "has_type t (bump_failure now a p) = has_type t p"
  by (simp add: has_type_def bump_failure_def)

lemma p_pattern_bump_failure [simp]: "p_pattern (bump_failure now a p) = p_pattern p"
  by (simp add: bump_failure_def)

lemma p_indicator_bump_failure [simp]: "p_indicator (bump_failure now a p) = p_indicator p"
  by (simp add: bump_failure_def)

lemma has_type_new_failure [simp]: "has_type t (new_failure now a ep) = (t = ''failure'')"
  by (auto simp: has_type_def new_failure_def plain_pattern_def)

lemma p_pattern_new_failure [simp]: "p_pattern (new_failure now a ep) = pattern_key ep"
  by (simp add: new_failure_def plain_pattern_def)









lemma has_type_bump_success [simp]: "has_type t (bump_success now p) = has_type t p"
  by (simp add: has_type_def bump_success_def)

lemma p_pattern_bump_success [simp]: "p_pattern (bump_success now p) = p_pattern p"
  by (simp add: bump_success_def)

lemma p_indicator_bump_success [simp]: "p_indicator (bump_success now p) = p_indicator p"
  by (simp add: bump_success_def)

lemma has_type_new_success [simp]: "has_type t (new_success now a ind) = (t = ''success'')"
  by (auto simp: has_type_def new_success_def plain_pattern_def)

lemma p_pattern_new_success [simp]: "p_pattern (new_success now a ind) = i_pattern ind"
  by (simp add: new_success_def plain_pattern_def)

lemma p_indicator_new_success [simp]: "p_indicator (new_success now a ind) = Some (i_pattern ind)"
  by (simp add: new_success_def plain_pattern_def)

lemma is_success_with_bump [simp]: "is_success_with k (bump_success now p) = is_success_with k p"
  by (simp add: is_success_with_def bump_success_def)





























lemma is_success_with_new [simp]: "is_success_with k (new_success now a ind) = (i_pattern ind = k)"
  by (simp add: is_success_with_def new_success_def plain_pattern_def)








section \<open>Properties of the handling of a failed build\<close>

lemma fold_err_invariant:
  assumes step: "\<And>s x s'. P s \<Longrightarrow> f s x = Inr s' \<Longrightarrow> P s'"
  shows "P s \<Longrightarrow> fold_err f s xs = Inr s' \<Longrightarrow> P s'"
proof (induction xs arbitrary: s)
  case Nil
  then show ?case by simp
next
  case (Cons x xs)
  from Cons.prems(2) obtain s1 where s1: "f s x = Inr s1" and rest: "fold_err f s1 xs = Inr s'"
    by (auto split: sum.splits)
  from step [OF Cons.prems(1) s1] rest show ?case
    by (rule Cons.IH)
qed

lemma test_match_no_dict:
  assumes "\<forall>t\<in>set (failed_tests tr). \<forall>d. t \<noteq> PyDict d" and "test_match tr m = Inr tr'"
  shows "\<forall>t\<in>set (failed_tests tr'). \<forall>d. t \<noteq> PyDict d"
  using assms
  by (auto simp: test_match_def split: if_splits sum.splits option.splits)

lemma analyze_test_failures_no_dict:
  assumes "analyze_test_failures e console = Inr tests"
  shows "\<forall>t\<in>set (failed_tests tests). \<forall>d. t \<noteq> PyDict d"
proof -
  let ?P = "\<lambda>tr. \<forall>t\<in>set (failed_tests tr). \<forall>d. t \<noteq> PyDict d"
  have inner: "?P tr \<Longrightarrow> fold_err test_match tr ms = Inr tr' \<Longrightarrow> ?P tr'" for tr ms tr'
    by (rule fold_err_invariant [where P = ?P and f = test_match]) (rule test_match_no_dict)
  have outer: "?P tr \<Longrightarrow>
      (case matches_of e pattern console of Inl err \<Rightarrow> Inl err
       | Inr ms \<Rightarrow> fold_err test_match tr ms) = Inr tr' \<Longrightarrow> ?P tr'" for tr pattern tr'
    using inner by (cases "matches_of e pattern console") auto
  have start: "?P \<lparr>failed_tests = [], error_count = 0, failure_count = 0, skipped_count = 0\<rparr>"
    by simp
  show ?thesis
  proof (rule fold_err_invariant [where P = ?P and xs = failed_test_patterns
        and s = "\<lparr>failed_tests = [], error_count = 0, failure_count = 0, skipped_count = 0\<rparr>"
        and f = "\<lambda>tr pattern. case matches_of e pattern console of Inl err \<Rightarrow> Inl err
                   | Inr ms \<Rightarrow> fold_err test_match tr ms"])
    show "?P \<lparr>failed_tests = [], error_count = 0, failure_count = 0, skipped_count = 0\<rparr>"
      by (rule start)
    show "fold_err (\<lambda>tr pattern. case matches_of e pattern console of Inl err \<Rightarrow> Inl err
                   | Inr ms \<Rightarrow> fold_err test_match tr ms)
        \<lparr>failed_tests = [], error_count = 0, failure_count = 0, skipped_count = 0\<rparr>
        failed_test_patterns = Inr tests"
      using assms unfolding analyze_test_failures_def .
  next
    fix tr pattern tr'
    assume "?P tr"
      and "(case matches_of e pattern console of Inl err \<Rightarrow> Inl err
            | Inr ms \<Rightarrow> fold_err test_match tr ms) = Inr tr'"
    then show "?P tr'" by (rule outer)
  qed
qed

lemma handle_test_failures_no_dict:
  assumes "tests \<noteq> []" and "\<forall>t\<in>set tests. \<forall>d. t \<noteq> PyDict d"
  shows "\<exists>msg. handle_test_failures tests = Inl (AttributeError msg)"
proof -
  from assms(1) obtain t ts where split: "tests = t # ts"
    by (cases tests) auto
  with assms(2) have "\<forall>d. t \<noteq> PyDict d" by simp
  then have "\<exists>msg. group_test [] t = Inl (AttributeError msg)"
    by (cases t) (simp_all add: group_test_def)
  then show ?thesis
    by (auto simp: handle_test_failures_def split)
qed

lemma test_handling_always_raises:
  assumes "analyze_test_failures e console = Inr tests" and "failed_tests tests \<noteq> []"
  shows "\<exists>msg. handle_test_failures (failed_tests tests) = Inl (AttributeError msg)"
  using assms(2) analyze_test_failures_no_dict [OF assms(1)]
  by (rule handle_test_failures_no_dict)

text \<open>
  C4. \<^verbatim>\<open>analyze_test_failures\<close> returns each failing test as the captured text, a
  string, and \<^verbatim>\<open>handle_test_failures\<close> calls \<^verbatim>\<open>test.get\<close> on it. For a failing
  build that matches one stored pattern and whose log has four \<^verbatim>\<open>FAIL: \<close> lines of
  package \<open>pkg.A\<close>, \<^verbatim>\<open>handle_failure\<close> records the \<open>pattern_match\<close> action and then
  ends with \<^verbatim>\<open>AttributeError\<close>: no test action is recorded and no description is
  posted. Given the four tests as dictionaries with a \<^verbatim>\<open>package\<close> key,
  \<^verbatim>\<open>handle_test_failures\<close> returns the single action for the package.
\<close>

theorem test_handling_raises:
  "map_sum id failed_tests (analyze_test_failures ex_test_env (Some ex_log)) =
     Inr [PyStr ''pkg.A.t1'', PyStr ''pkg.A.t2'', PyStr ''pkg.A.t3'', PyStr ''pkg.A.t4'']
   \<and> map p_pattern (db_get (pattern_database ex_state) ''job'') = [''E'']
   \<and> fst (handle_failure ex_test_env 40 ex_flaky ex_state) =
       Some (AttributeError ''str object has no attribute get'')
   \<and> map (map_prod id (map a_type))
        (action_history (snd (handle_failure ex_test_env 40 ex_flaky ex_state))) =
       [(''job#9'', [Some ''pattern_match''])]
   \<and> requests (snd (handle_failure ex_test_env 40 ex_flaky ex_state)) = []
   \<and> handle_test_failures ex_dict_tests =
       Inr ''Multiple failures in pkg.A - checking environment''"
  by code_simp

section \<open>Properties of the dispatch on the build result\<close>











end
